theory Spec2Isabelle
  imports Main "HOL-Library.Sublist"
begin

section \<open>Strings\<close>

text \<open>
  Both scripts read every file with \<^verbatim>\<open>ENCODING = "latin1"\<close>, so each character of a
  field name or of a cell is a code point below 256: one HOL \<open>char\<close> is one character of
  the Python \<open>str\<close>.

  \<^verbatim>\<open>str.lower()\<close> on such a string changes the letters \<open>A\<close>..\<open>Z\<close> (65..90) and the
  accented capitals 192..222 other than the multiplication sign 215; each moves up by 32.
  Every other code point below 256 is left as it is.
\<close>

definition lower_char :: "char \<Rightarrow> char" where
  "lower_char c =
     (let n = (of_char c :: nat)
      in if (65 \<le> n \<and> n \<le> 90) \<or> (192 \<le> n \<and> n \<le> 222 \<and> n \<noteq> 215)
         then char_of (n + 32) else c)"

definition lower :: "string \<Rightarrow> string" where
  "lower s = map lower_char s"

text \<open>\<^verbatim>\<open>s.startswith(p)\<close> and \<^verbatim>\<open>s.endswith(p)\<close> for one string \<open>p\<close>.\<close>

definition startswith :: "string \<Rightarrow> string \<Rightarrow> bool" where
  "startswith s p = (take (length p) s = p)"

definition endswith :: "string \<Rightarrow> string \<Rightarrow> bool" where
  "endswith s p = (length p \<le> length s \<and> drop (length s - length p) s = p)"

text \<open>\<^verbatim>\<open>s.startswith((p1, p2, ...))\<close>: true when one of the prefixes fits.\<close>

definition startswith_any :: "string \<Rightarrow> string list \<Rightarrow> bool" where
  "startswith_any s ps = list_ex (startswith s) ps"

section \<open>Type inference by field name (Compara3PJ.py)\<close>

text \<open>
  \<^verbatim>\<open>
  def map_tipo_aneel(campo: str) -> str:
      c = campo.lower()
      if c.startswith("fic_"):
          return "INTEGER"
      if c.startswith(("dic_", "dem_", "ene_")) or c in ("point_x", "point_y"):
          return "REAL"
      return "TEXT"
  \<close>
\<close>

definition map_tipo_aneel :: "string \<Rightarrow> string" where
  "map_tipo_aneel campo =
     (let c = lower campo
      in if startswith c ''fic_'' then ''INTEGER''
         else if startswith_any c [''dic_'', ''dem_'', ''ene_'']
                 \<or> c \<in> set [''point_x'', ''point_y''] then ''REAL''
         else ''TEXT'')"

section \<open>Values and exceptions\<close>

text \<open>
  A cell of a pandas DataFrame or Series is a string, a number, a truth value, or missing. The missing
  value stands for \<^verbatim>\<open>NaN\<close>, \<^verbatim>\<open>None\<close> and \<^verbatim>\<open>pd.NA\<close>: pandas treats the three alike
  (\<^verbatim>\<open>isna\<close>, \<^verbatim>\<open>fillna\<close>), and \<^verbatim>\<open>to_sql\<close> stores each of them as SQL NULL. The type of
  numbers is left open (\<open>'n\<close>); the scripts never compute with them, they only replace
  missing numbers by \<open>0\<close>.
\<close>

datatype 'n cell = Str string | Num 'n | Bool bool | Null

text \<open>The Python exceptions the two scripts can meet.\<close>

datatype exn =
    ValueError string
  | TypeError
  | KeyError
  | StopIteration
  | FileNotFoundError "string list"
  | FileExistsError "string list"
  | NotADirectoryError "string list"
  | IsADirectoryError "string list"
  | BadZipFile "string list"
  | ParserError string
  | EmptyDataError
  | SystemExit nat

section \<open>Date parsing (CriaePopulaSQLitePJ.py)\<close>

subsection \<open>The regular expression of the format\<close>

text \<open>
  \<^verbatim>\<open>datetime.strptime(val, '%d%b%Y:%H:%M:%S.%f')\<close> compiles the format into one regular
  expression (module \<^verbatim>\<open>_strptime\<close>, flag \<^verbatim>\<open>IGNORECASE\<close>), matches it at the start of the
  string, and raises \<^verbatim>\<open>ValueError\<close> when there is no match or when the match does not
  reach the end of the string. The directives stand for
  \<^verbatim>\<open>
  %d  3[0-1]|[1-2]\d|0[1-9]|[1-9]| [1-9]
  %b  jan|feb|mar|apr|may|jun|jul|aug|sep|oct|nov|dec      (C locale)
  %Y  \d\d\d\d
  %H  2[0-3]|[0-1]\d|\d
  %M  [0-5]\d|\d
  %S  6[0-1]|[0-5]\d|\d
  %f  [0-9]{1,6}
  \<close>
  A matcher maps a string to the list of its matches, each one the matched text and the
  rest of the string, in the order in which the backtracking engine tries them: the
  alternatives from left to right, a greedy repetition from the longest to the shortest.
  The head of the list for the whole expression is the match that \<^verbatim>\<open>re.match\<close> returns.
\<close>

type_synonym rx = "string \<Rightarrow> (string \<times> string) list"

definition in_range :: "char \<Rightarrow> char \<Rightarrow> char \<Rightarrow> bool" where
  "in_range a b c = ((of_char a :: nat) \<le> of_char c \<and> (of_char c :: nat) \<le> of_char b)"

definition is_digit :: "char \<Rightarrow> bool" where
  "is_digit c = in_range CHR ''0'' CHR ''9'' c"

fun rx_char :: "(char \<Rightarrow> bool) \<Rightarrow> rx" where
  "rx_char P [] = []"
| "rx_char P (c # r) = (if P c then [([c], r)] else [])"

definition rx_lit :: "char \<Rightarrow> rx" where
  "rx_lit a = rx_char (\<lambda>c. c = a)"

definition rx_seq :: "rx \<Rightarrow> rx \<Rightarrow> rx" where
  "rx_seq p q s = concat (map (\<lambda>(a, r). map (\<lambda>(b, r'). (a @ b, r')) (q r)) (p s))"

definition rx_alt :: "rx list \<Rightarrow> rx" where
  "rx_alt ps s = concat (map (\<lambda>p. p s) ps)"

text \<open>A word matched without regard to case (the word itself is in lower case).\<close>

definition rx_word :: "string \<Rightarrow> rx" where
  "rx_word w s =
     (if length w \<le> length s \<and> lower (take (length w) s) = w
      then [(take (length w) s, drop (length w) s)] else [])"

text \<open>\<^verbatim>\<open>[0-9]{1,k}\<close>, greedy: the longest run of digits first.\<close>

definition rx_digits_upto :: "nat \<Rightarrow> rx" where
  "rx_digits_upto k s =
     (let m = length (takeWhile is_digit (take k s))
      in map (\<lambda>n. (take n s, drop n s)) (rev [1..<Suc m]))"

definition rx_d :: rx where
  "rx_d = rx_alt
     [rx_seq (rx_lit CHR ''3'') (rx_char (in_range CHR ''0'' CHR ''1'')),
      rx_seq (rx_char (in_range CHR ''1'' CHR ''2'')) (rx_char is_digit),
      rx_seq (rx_lit CHR ''0'') (rx_char (in_range CHR ''1'' CHR ''9'')),
      rx_char (in_range CHR ''1'' CHR ''9''),
      rx_seq (rx_lit CHR '' '') (rx_char (in_range CHR ''1'' CHR ''9''))]"

definition a_month :: "string list" where
  "a_month = [''jan'', ''feb'', ''mar'', ''apr'', ''may'', ''jun'',
              ''jul'', ''aug'', ''sep'', ''oct'', ''nov'', ''dec'']"

definition rx_b :: rx where
  "rx_b = rx_alt (map rx_word a_month)"

definition rx_Y :: rx where
  "rx_Y = rx_seq (rx_char is_digit)
            (rx_seq (rx_char is_digit) (rx_seq (rx_char is_digit) (rx_char is_digit)))"

definition rx_H :: rx where
  "rx_H = rx_alt
     [rx_seq (rx_lit CHR ''2'') (rx_char (in_range CHR ''0'' CHR ''3'')),
      rx_seq (rx_char (in_range CHR ''0'' CHR ''1'')) (rx_char is_digit),
      rx_char is_digit]"

definition rx_M :: rx where
  "rx_M = rx_alt
     [rx_seq (rx_char (in_range CHR ''0'' CHR ''5'')) (rx_char is_digit),
      rx_char is_digit]"

definition rx_S :: rx where
  "rx_S = rx_alt
     [rx_seq (rx_lit CHR ''6'') (rx_char (in_range CHR ''0'' CHR ''1'')),
      rx_seq (rx_char (in_range CHR ''0'' CHR ''5'')) (rx_char is_digit),
      rx_char is_digit]"

definition rx_f :: rx where
  "rx_f = rx_digits_upto 6"

text \<open>
  The matches of the whole expression \<^verbatim>\<open>%d%b%Y:%H:%M:%S.%f\<close>: the texts of the seven
  groups and what is left of the string.
\<close>

definition format_regex :: "string \<Rightarrow> (string list \<times> string) list" where
  "format_regex s =
     [([d, b, y, h, m, sec, f], r10).
        (d, r1) \<leftarrow> rx_d s, (b, r2) \<leftarrow> rx_b r1, (y, r3) \<leftarrow> rx_Y r2,
        (c1, r4) \<leftarrow> rx_lit CHR '':'' r3, (h, r5) \<leftarrow> rx_H r4,
        (c2, r6) \<leftarrow> rx_lit CHR '':'' r5, (m, r7) \<leftarrow> rx_M r6,
        (c3, r8) \<leftarrow> rx_lit CHR '':'' r7, (sec, r9) \<leftarrow> rx_S r8,
        (c4, r9') \<leftarrow> rx_lit CHR ''.'' r9, (f, r10) \<leftarrow> rx_f r9']"

subsection \<open>From the groups to a date and time\<close>

record datetime =
  year :: nat
  month :: nat
  day :: nat
  hour :: nat
  minute :: nat
  second :: nat
  microsecond :: nat

text \<open>\<^verbatim>\<open>int(s)\<close> on a string of decimal digits; a leading blank (day \<open>" 7"\<close>) is skipped.\<close>

definition int_of_digits :: "string \<Rightarrow> nat" where
  "int_of_digits s =
     fold (\<lambda>c n. 10 * n + (of_char c - 48)) (filter is_digit s) 0"

definition is_leap :: "nat \<Rightarrow> bool" where
  "is_leap y = (y mod 4 = 0 \<and> (y mod 100 \<noteq> 0 \<or> y mod 400 = 0))"

definition days_in_month :: "nat \<Rightarrow> nat \<Rightarrow> nat" where
  "days_in_month y m =
     (if m = 2 then (if is_leap y then 29 else 28)
      else if m \<in> set [4, 6, 9, 11] then 30 else 31)"

text \<open>
  \<^verbatim>\<open>xs.index(w)\<close>, counting from \<open>i\<close>; \<^verbatim>\<open>a_month.index(name)\<close> counts the months from 1.
\<close>

fun index_from :: "nat \<Rightarrow> 'a \<Rightarrow> 'a list \<Rightarrow> nat option" where
  "index_from i w [] = None"
| "index_from i w (x # xs) = (if x = w then Some i else index_from (Suc i) w xs)"

text \<open>
  The constructor \<^verbatim>\<open>datetime(year, month, day, hour, minute, second, microsecond)\<close>
  raises \<^verbatim>\<open>ValueError\<close> outside the ranges of the calendar: the year 0, a day the month
  does not have, a second of 60 or 61 (which \<^verbatim>\<open>%S\<close> lets through).
\<close>

definition make_datetime ::
  "nat \<Rightarrow> nat \<Rightarrow> nat \<Rightarrow> nat \<Rightarrow> nat \<Rightarrow> nat \<Rightarrow> nat \<Rightarrow> exn + datetime" where
  "make_datetime y mo d h mi s us =
     (if y < 1 \<or> 9999 < y then Inl (ValueError ''year is out of range'')
      else if mo < 1 \<or> 12 < mo then Inl (ValueError ''month must be in 1..12'')
      else if d < 1 \<or> days_in_month y mo < d then
        Inl (ValueError ''day is out of range for month'')
      else if 23 < h then Inl (ValueError ''hour must be in 0..23'')
      else if 59 < mi then Inl (ValueError ''minute must be in 0..59'')
      else if 59 < s then Inl (ValueError ''second must be in 0..59'')
      else if 999999 < us then Inl (ValueError ''microsecond must be in 0..999999'')
      else Inr \<lparr>year = y, month = mo, day = d, hour = h, minute = mi, second = s,
                 microsecond = us\<rparr>)"

text \<open>
  \<^verbatim>\<open>strptime\<close>: the first match of the expression must reach the end of the string; the
  fraction is padded with zeros on the right to six digits.
\<close>

definition strptime :: "string \<Rightarrow> exn + datetime" where
  "strptime s =
     (case format_regex s of
        [] \<Rightarrow> Inl (ValueError ''time data does not match format'')
      | (groups, rest) # others \<Rightarrow>
          if rest \<noteq> [] then Inl (ValueError ''unconverted data remains'')
          else (case groups of
                  [d, b, y, h, m, sec, f] \<Rightarrow>
                    (case index_from 1 (lower b) a_month of
                       None \<Rightarrow> Inl (ValueError ''time data does not match format'')
                     | Some mo \<Rightarrow>
                         make_datetime (int_of_digits y) mo (int_of_digits d)
                           (int_of_digits h) (int_of_digits m) (int_of_digits sec)
                           (int_of_digits (f @ replicate (6 - length f) CHR ''0'')))
                | _ \<Rightarrow> Inl (ValueError ''time data does not match format'')))"

text \<open>
  \<^verbatim>\<open>dt.strftime('%Y-%m-%dT%H:%M:%S')\<close>: the year on four digits, every other field on
  two, padded with zeros.
\<close>

definition digit_char :: "nat \<Rightarrow> char" where
  "digit_char n = ''0123456789'' ! (n mod 10)"

definition pad2 :: "nat \<Rightarrow> string" where
  "pad2 n = [digit_char (n div 10), digit_char n]"

definition pad4 :: "nat \<Rightarrow> string" where
  "pad4 n = [digit_char (n div 1000), digit_char (n div 100), digit_char (n div 10),
             digit_char n]"

definition strftime :: "datetime \<Rightarrow> string" where
  "strftime dt =
     pad4 (year dt) @ ''-'' @ pad2 (month dt) @ ''-'' @ pad2 (day dt) @ ''T''
       @ pad2 (hour dt) @ '':'' @ pad2 (minute dt) @ '':'' @ pad2 (second dt)"

text \<open>
  \<^verbatim>\<open>
  def parse_date(val: str) -> str:
      """Converte '31DEC2023:00:00:00.0000000' -> '2023-12-31T00:00:00'"""
      try:
          dt = datetime.strptime(val, '%d%b%Y:%H:%M:%S.%f')
          return dt.strftime('%Y-%m-%dT%H:%M:%S')
      except Exception:
          return None
  \<close>
  The function is applied to every cell of a date column. A cell that is not a string
  (a number, or \<^verbatim>\<open>NaN\<close> for an empty field) makes \<^verbatim>\<open>strptime\<close> raise \<^verbatim>\<open>TypeError\<close>,
  which the handler turns into \<^verbatim>\<open>None\<close> like every other exception.
\<close>

definition strptime_cell :: "'n cell \<Rightarrow> exn + datetime" where
  "strptime_cell v = (case v of Str s \<Rightarrow> strptime s | _ \<Rightarrow> Inl TypeError)"

definition parse_date :: "'n cell \<Rightarrow> 'n cell" where
  "parse_date val =
     (case strptime_cell val of
        Inr dt \<Rightarrow> Str (strftime dt)
      | Inl e \<Rightarrow> Null)"

section \<open>Data frames and the pandas operations the scripts call\<close>

text \<open>
  A DataFrame is its column labels and its rows, every row with one cell per label.
\<close>

record 'n frame =
  columns :: "string list"
  rows :: "'n cell list list"

definition wf_frame :: "'n frame \<Rightarrow> bool" where
  "wf_frame df = (distinct (columns df) \<and> list_all (\<lambda>r. length r = length (columns df)) (rows df))"

text \<open>
  \<^verbatim>\<open>df[col]\<close> raises \<^verbatim>\<open>KeyError\<close> when no column has the label. The scripts only ever
  assign to a column a function of its own cells, \<^verbatim>\<open>df[col] = g(df[col])\<close>, with \<open>g\<close>
  working cell by cell (\<^verbatim>\<open>to_numeric\<close>, \<^verbatim>\<open>fillna\<close>, \<^verbatim>\<open>where\<close>, \<^verbatim>\<open>apply\<close>).
\<close>

definition get_column :: "'n frame \<Rightarrow> string \<Rightarrow> exn + 'n cell list" where
  "get_column df col =
     (case index_from 0 col (columns df) of
        None \<Rightarrow> Inl KeyError
      | Some i \<Rightarrow> Inr (map (\<lambda>r. r ! i) (rows df)))"

definition apply_column :: "('n cell \<Rightarrow> 'n cell) \<Rightarrow> string \<Rightarrow> 'n frame \<Rightarrow> exn + 'n frame" where
  "apply_column g col df =
     (case index_from 0 col (columns df) of
        None \<Rightarrow> Inl KeyError
      | Some i \<Rightarrow> Inr (df\<lparr>rows := map (\<lambda>r. r[i := g (r ! i)]) (rows df)\<rparr>))"

text \<open>
  What the scripts take from pandas without fixing it themselves: which text is a number
  for \<^verbatim>\<open>read_csv\<close> (it depends on the decimal separator), which text is a number for
  \<^verbatim>\<open>to_numeric\<close>, and the name of the dtype of a column.
\<close>

record 'n pandas =
  csv_number :: "char \<Rightarrow> string \<Rightarrow> 'n option"
  str_number :: "string \<Rightarrow> 'n option"
  dtype_name :: "'n cell list \<Rightarrow> string"

text \<open>
  \<^verbatim>\<open>pd.to_numeric(s, errors="coerce")\<close> keeps a number, reads a string as a number or
  gives \<^verbatim>\<open>NaN\<close>; \<^verbatim>\<open>.fillna(0)\<close> puts \<open>0\<close> for each missing cell;
  \<^verbatim>\<open>s.where(s.notna(), None)\<close> (or \<^verbatim>\<open>pd.NA\<close>) keeps every cell that is present and leaves
  a missing one missing.
\<close>

definition to_numeric :: "'n pandas \<Rightarrow> 'n cell \<Rightarrow> 'n cell" where
  "to_numeric pd v =
     (case v of
        Str s \<Rightarrow> (case str_number pd s of Some x \<Rightarrow> Num x | None \<Rightarrow> Null)
      | _ \<Rightarrow> v)"

definition fillna :: "'n \<Rightarrow> 'n cell \<Rightarrow> 'n cell" where
  "fillna z v = (case v of Null \<Rightarrow> Num z | _ \<Rightarrow> v)"

definition notna :: "'n cell \<Rightarrow> bool" where
  "notna v = (v \<noteq> Null)"

definition where_notna :: "'n cell \<Rightarrow> 'n cell" where
  "where_notna v = (if notna v then v else Null)"

subsection \<open>Reading a delimited text file\<close>

text \<open>
  A delimited text file is the table of its fields: one list of fields per line that is
  not blank, the first line being the header. That is the file after the reader has split
  the lines at \<^verbatim>\<open>SEP = ";"\<close> and removed the quotes, and before it gives the fields a type.

  \<^verbatim>\<open>read_csv\<close> then works column by column. A field that is one of the default missing
  markers is missing; if every other field of the column is a number the column holds
  numbers, else if every other field is a truth value it holds truth values, else it
  holds the fields as strings. A line with fewer fields than the header is filled up with
  missing cells; a line with more fields is an error. The labels are the header fields
  (taken to be distinct and not empty: pandas renames the others).
\<close>

definition STR_NA_VALUES :: "string list" where
  "STR_NA_VALUES = ['''', ''#N/A'', ''#N/A N/A'', ''#NA'', ''-1.#IND'', ''-1.#QNAN'', ''-NaN'',
     ''-nan'', ''1.#IND'', ''1.#QNAN'', ''<NA>'', ''N/A'', ''NA'', ''NULL'', ''NaN'', ''None'',
     ''n/a'', ''nan'', ''null'']"

definition TRUE_VALUES :: "string list" where
  "TRUE_VALUES = [''True'', ''TRUE'', ''true'']"

definition FALSE_VALUES :: "string list" where
  "FALSE_VALUES = [''False'', ''FALSE'', ''false'']"

definition is_na :: "string \<Rightarrow> bool" where
  "is_na t = (t \<in> set STR_NA_VALUES)"

definition convert_column :: "(string \<Rightarrow> 'n option) \<Rightarrow> string list \<Rightarrow> 'n cell list" where
  "convert_column num toks =
     (let present = filter (\<lambda>t. \<not> is_na t) toks
      in if list_all (\<lambda>t. num t \<noteq> None) present then
           map (\<lambda>t. if is_na t then Null
                     else (case num t of Some x \<Rightarrow> Num x | None \<Rightarrow> Null)) toks
         else if list_all (\<lambda>t. t \<in> set (TRUE_VALUES @ FALSE_VALUES)) present then
           map (\<lambda>t. if is_na t then Null else Bool (t \<in> set TRUE_VALUES)) toks
         else map (\<lambda>t. if is_na t then Null else Str t) toks)"

definition read_csv :: "(string \<Rightarrow> 'n option) \<Rightarrow> string list list \<Rightarrow> exn + 'n frame" where
  "read_csv num tab =
     (case tab of
        [] \<Rightarrow> Inl EmptyDataError
      | header # data \<Rightarrow>
          if header = [] then Inl EmptyDataError
          else if list_ex (\<lambda>r. length header < length r) data then
            Inl (ParserError ''Error tokenizing data'')
          else
            (let padded = map (\<lambda>r. r @ replicate (length header - length r) []) data;
                 cols = map (\<lambda>i. convert_column num (map (\<lambda>r. r ! i) padded))
                          [0..<length header]
             in Inr \<lparr>columns = header,
                     rows = map (\<lambda>j. map (\<lambda>c. c ! j) cols) [0..<length data]\<rparr>))"

section \<open>Files, tables and the console\<close>

text \<open>
  A path is the list of its parts, the drive first. A file is a delimited text file, a zip
  archive of named delimited text files, or something else (the SQLite file, whose tables
  are kept apart).
\<close>

type_synonym path = "string list"

datatype contents = Delimited "string list list" | Archive "(string \<times> string list list) list" | Opaque

datatype node = Dir | File contents

type_synonym filesystem = "path \<rightharpoonup> node"

definition parent :: "path \<Rightarrow> path" where
  "parent p = (if length p \<le> 1 then p else butlast p)"

definition path_exists :: "filesystem \<Rightarrow> path \<Rightarrow> bool" where
  "path_exists fs p = (fs p \<noteq> None)"

definition is_dir :: "filesystem \<Rightarrow> path \<Rightarrow> bool" where
  "is_dir fs p = (fs p = Some Dir)"

text \<open>
  \<^verbatim>\<open>os.mkdir(p)\<close> makes one directory: the path must be free and its parent must be a
  directory.
\<close>

definition os_mkdir :: "path \<Rightarrow> filesystem \<Rightarrow> exn + filesystem" where
  "os_mkdir p fs =
     (if fs p \<noteq> None then Inl (FileExistsError p)
      else (case fs (parent p) of
              None \<Rightarrow> Inl (FileNotFoundError p)
            | Some (File f) \<Rightarrow> Inl (NotADirectoryError p)
            | Some Dir \<Rightarrow> Inr (fs(p \<mapsto> Dir))))"

text \<open>
  \<^verbatim>\<open>
  def mkdir(self, mode=0o777, parents=False, exist_ok=False):      # pathlib
      try:
          os.mkdir(self, mode)
      except FileNotFoundError:
          if not parents or self.parent == self:
              raise
          self.parent.mkdir(parents=True, exist_ok=True)
          self.mkdir(mode, parents=False, exist_ok=exist_ok)
      except OSError:
          if not exist_ok or not self.is_dir():
              raise
  \<close>
  \<open>mkdir_leaf\<close> is the call with \<^verbatim>\<open>parents=False, exist_ok=True\<close>, \<open>mkdir_parents\<close> the call
  with \<^verbatim>\<open>parents=True, exist_ok=True\<close> that both scripts make.
\<close>

definition mkdir_leaf :: "path \<Rightarrow> filesystem \<Rightarrow> exn + filesystem" where
  "mkdir_leaf p fs =
     (case os_mkdir p fs of
        Inr fs' \<Rightarrow> Inr fs'
      | Inl (FileNotFoundError q) \<Rightarrow> Inl (FileNotFoundError q)
      | Inl e \<Rightarrow> if is_dir fs p then Inr fs else Inl e)"

function mkdir_parents :: "path \<Rightarrow> filesystem \<Rightarrow> exn + filesystem" where
  "mkdir_parents p fs =
     (case os_mkdir p fs of
        Inr fs' \<Rightarrow> Inr fs'
      | Inl (FileNotFoundError q) \<Rightarrow>
          if parent p = p then Inl (FileNotFoundError q)
          else (case mkdir_parents (parent p) fs of
                  Inl e \<Rightarrow> Inl e
                | Inr fs1 \<Rightarrow> mkdir_leaf p fs1)
      | Inl e \<Rightarrow> if is_dir fs p then Inr fs else Inl e)"
  by pat_completeness auto
termination
  by (relation "measure (\<lambda>(p, fs). length p)") (auto simp: parent_def split: if_splits)

declare mkdir_parents.simps [simp del]

text \<open>Opening a file to read it, and writing a file anew.\<close>

definition open_file :: "path \<Rightarrow> filesystem \<Rightarrow> exn + contents" where
  "open_file p fs =
     (case fs p of
        None \<Rightarrow> Inl (FileNotFoundError p)
      | Some Dir \<Rightarrow> Inl (IsADirectoryError p)
      | Some (File f) \<Rightarrow> Inr f)"

definition write_file :: "path \<Rightarrow> contents \<Rightarrow> filesystem \<Rightarrow> exn + filesystem" where
  "write_file p f fs =
     (case fs (parent p) of
        None \<Rightarrow> Inl (FileNotFoundError p)
      | Some (File g) \<Rightarrow> Inl (NotADirectoryError p)
      | Some Dir \<Rightarrow>
          (case fs p of
             Some Dir \<Rightarrow> Inl (IsADirectoryError p)
           | _ \<Rightarrow> Inr (fs(p \<mapsto> File f))))"

text \<open>A delimited text file read as such; a zip archive opened as such.\<close>

definition open_delimited :: "path \<Rightarrow> filesystem \<Rightarrow> exn + string list list" where
  "open_delimited p fs =
     (case open_file p fs of
        Inl e \<Rightarrow> Inl e
      | Inr (Delimited tab) \<Rightarrow> Inr tab
      | Inr f \<Rightarrow> Inl (ParserError ''Error tokenizing data''))"

definition open_zip :: "path \<Rightarrow> filesystem \<Rightarrow> exn + (string \<times> string list list) list" where
  "open_zip p fs =
     (case open_file p fs of
        Inl e \<Rightarrow> Inl e
      | Inr (Archive entries) \<Rightarrow> Inr entries
      | Inr f \<Rightarrow> Inl (BadZipFile p))"

text \<open>
  The tables of the SQLite file. \<^verbatim>\<open>to_sql(name, if_exists='replace', dtype=...)\<close> drops a
  table of that name and makes it anew from the frame; \<^verbatim>\<open>if_exists='append'\<close> adds the
  rows of the frame to the table (making it when there is none).
\<close>

datatype sqltype = SQL_INTEGER | SQL_REAL | SQL_TEXT

record 'n table =
  t_columns :: "string list"
  t_dtype :: "('n cell \<times> sqltype) list"
  t_rows :: "'n cell list list"

type_synonym 'n database = "string \<rightharpoonup> 'n table"

definition to_sql_replace ::
  "string \<Rightarrow> ('n cell \<times> sqltype) list \<Rightarrow> 'n frame \<Rightarrow> 'n database \<Rightarrow> 'n database" where
  "to_sql_replace name dtype df db =
     db(name \<mapsto> \<lparr>t_columns = columns df, t_dtype = dtype, t_rows = rows df\<rparr>)"

definition to_sql_append :: "string \<Rightarrow> 'n frame \<Rightarrow> 'n database \<Rightarrow> 'n database" where
  "to_sql_append name df db =
     (case db name of
        None \<Rightarrow> db(name \<mapsto> \<lparr>t_columns = columns df, t_dtype = [], t_rows = rows df\<rparr>)
      | Some t \<Rightarrow> db(name \<mapsto> t\<lparr>t_rows := t_rows t @ rows df\<rparr>))"

text \<open>What the scripts print, line by line.\<close>

datatype missing =
    Input_dir_nao_encontrado path
  | Arquivo_nao_encontrado string path
  | Input_dir_nao_existe path
  | DDA_dir_nao_existe path
  | Arquivo_de_dados_faltando string path
  | DDA_faltando string path

datatype line =
    ERRO missing
  | Encontrados
  | Processando string string
  | Exportado path
  | ERROR_ao_processar string exn
  | Traceback exn
  | DDA_gerados
  | Necessarios_encontrados
  | Importando string
  | Concluido string nat
  | Importacao_completa path

text \<open>The world a script runs in: the files, the tables of the database, the console.\<close>

record 'n world =
  files :: filesystem
  tables :: "'n database"
  console :: "line list"

definition print :: "line \<Rightarrow> 'n world \<Rightarrow> 'n world" where
  "print l w = w\<lparr>console := console w @ [l]\<rparr>"

definition print_all :: "line list \<Rightarrow> 'n world \<Rightarrow> 'n world" where
  "print_all ls w = w\<lparr>console := console w @ ls\<rparr>"

section \<open>Python loops and dictionaries\<close>

text \<open>
  A \<^verbatim>\<open>for\<close> loop whose body may raise: the first exception ends the loop. A \<^verbatim>\<open>dict\<close>
  keeps its keys in the order of their first insertion; storing under a key that is
  there replaces the value in place.
\<close>

fun for_each :: "('a \<Rightarrow> 's \<Rightarrow> exn + 's) \<Rightarrow> 'a list \<Rightarrow> 's \<Rightarrow> exn + 's" where
  "for_each body [] s = Inr s"
| "for_each body (x # xs) s =
     (case body x s of Inl e \<Rightarrow> Inl e | Inr s' \<Rightarrow> for_each body xs s')"

fun map_exn :: "('a \<Rightarrow> exn + 'b) \<Rightarrow> 'a list \<Rightarrow> exn + 'b list" where
  "map_exn f [] = Inr []"
| "map_exn f (x # xs) =
     (case f x of
        Inl e \<Rightarrow> Inl e
      | Inr y \<Rightarrow> (case map_exn f xs of Inl e \<Rightarrow> Inl e | Inr ys \<Rightarrow> Inr (y # ys)))"

fun dict_set :: "'k \<Rightarrow> 'v \<Rightarrow> ('k \<times> 'v) list \<Rightarrow> ('k \<times> 'v) list" where
  "dict_set k v [] = [(k, v)]"
| "dict_set k v ((k', v') # d) =
     (if k' = k then (k, v) # d else (k', v') # dict_set k v d)"

definition dict_of :: "('k \<times> 'v) list \<Rightarrow> ('k \<times> 'v) list" where
  "dict_of kvs = foldl (\<lambda>d (k, v). dict_set k v d) [] kvs"

definition dict_get :: "('k \<times> 'v) list \<Rightarrow> 'k \<Rightarrow> exn + 'v" where
  "dict_get d k = (case map_of d k of None \<Rightarrow> Inl KeyError | Some v \<Rightarrow> Inr v)"

section \<open>The dictionary builder (Compara3PJ.py)\<close>

subsection \<open>Configuration\<close>

definition INPUT_DIR :: path where
  "INPUT_DIR = [''C:'', ''Users'', ''ivocy'', ''Downloads'']"

definition OUTPUT_DIR :: path where
  "OUTPUT_DIR = [''C:'', ''Projetos'', ''TotalEnergie'', ''BaseDados'']"

definition DECIMAL :: char where
  "DECIMAL = CHR '',''"

definition FILES :: "(string \<times> path) list" where
  "FILES = [(''at'', INPUT_DIR @ [''ucat_pj.csv'']),
            (''mt'', INPUT_DIR @ [''ucmt_pj.csv'']),
            (''bt'', INPUT_DIR @ [''ucbt_pj.zip''])]"

subsection \<open>The check of the environment\<close>

text \<open>
  \<^verbatim>\<open>
  def verify_environment():
      missing = []
      if not INPUT_DIR.exists() or not INPUT_DIR.is_dir():
          missing.append(f"Diretorio de input nao encontrado: {INPUT_DIR}")
      for tipo, path in FILES.items():
          if not path.exists():
              missing.append(f"Arquivo nao encontrado ({tipo}): {path}")
      if missing:
          for msg in missing:
              print(f"[ERRO] {msg}")
          sys.exit(1)
      print("Diretorios e arquivos encontrados\n")
  \<close>
  The result is the exception that ended the call, if any, and the world it left.
\<close>

definition builder_missing :: "filesystem \<Rightarrow> missing list" where
  "builder_missing fs =
     (if \<not> path_exists fs INPUT_DIR \<or> \<not> is_dir fs INPUT_DIR
      then [Input_dir_nao_encontrado INPUT_DIR] else [])
     @ concat (map (\<lambda>(tipo, path).
         if \<not> path_exists fs path then [Arquivo_nao_encontrado tipo path] else []) FILES)"

definition verify_environment :: "'n world \<Rightarrow> exn option \<times> 'n world" where
  "verify_environment w =
     (let missing = builder_missing (files w)
      in if missing \<noteq> [] then (Some (SystemExit 1), print_all (map ERRO missing) w)
         else (None, print Encontrados w))"

subsection \<open>One dataset\<close>

text \<open>
  Step 1 of \<^verbatim>\<open>processar_tipo\<close>: at most 10000 lines of data are read; for \<open>bt\<close> the
  file is a zip archive and the text file is its first entry whose name, in lower case,
  ends in \<^verbatim>\<open>.csv\<close> (\<^verbatim>\<open>next(...)\<close> raises \<^verbatim>\<open>StopIteration\<close> when there is none).
\<close>

definition NROWS :: nat where
  "NROWS = 10000"

definition read_sample :: "'n pandas \<Rightarrow> string \<Rightarrow> path \<Rightarrow> filesystem \<Rightarrow> exn + 'n frame" where
  "read_sample pd tipo path fs =
     (if tipo \<in> set [''at'', ''mt''] then
        (case open_delimited path fs of
           Inl e \<Rightarrow> Inl e
         | Inr tab \<Rightarrow> read_csv (csv_number pd DECIMAL) (take (Suc NROWS) tab))
      else
        (case open_zip path fs of
           Inl e \<Rightarrow> Inl e
         | Inr entries \<Rightarrow>
             (case find (\<lambda>(f, tab). endswith (lower f) ''.csv'') entries of
                None \<Rightarrow> Inl StopIteration
              | Some (csv_name, tab) \<Rightarrow>
                  read_csv (csv_number pd DECIMAL) (take (Suc NROWS) tab))))"

text \<open>
  Step 2:
  \<^verbatim>\<open>
  tipo_map = {col: map_tipo_aneel(col) for col in df.columns}
  for col, t in tipo_map.items():
      if t in ("REAL", "INTEGER"):
          df[col] = pd.to_numeric(df[col], errors="coerce").fillna(0)
      else:
          df[col] = df[col].where(df[col].notna(), pd.NA)
  \<close>
\<close>

definition ajusta_coluna ::
  "('n::zero) pandas \<Rightarrow> string \<times> string \<Rightarrow> 'n frame \<Rightarrow> exn + 'n frame" where
  "ajusta_coluna pd = (\<lambda>(col, t) df.
     if t \<in> set [''REAL'', ''INTEGER'']
     then apply_column (\<lambda>v. fillna 0 (to_numeric pd v)) col df
     else apply_column where_notna col df)"

definition ajusta_tipos ::
  "('n::zero) pandas \<Rightarrow> (string \<times> string) list \<Rightarrow> 'n frame \<Rightarrow> exn + 'n frame" where
  "ajusta_tipos pd tipo_map df = for_each (ajusta_coluna pd) tipo_map df"

text \<open>
  Step 4: one line of the dictionary per column, with the field name, the name of the
  dtype of the adjusted column and the inferred type.
\<close>

definition dda_row ::
  "'n pandas \<Rightarrow> (string \<times> string) list \<Rightarrow> 'n frame \<Rightarrow> string \<Rightarrow> exn + string list" where
  "dda_row pd tipo_map df col =
     (case get_column df col of
        Inl e \<Rightarrow> Inl e
      | Inr cells \<Rightarrow>
          (case dict_get tipo_map col of
             Inl e \<Rightarrow> Inl e
           | Inr tipo_aneel \<Rightarrow> Inr [col, dtype_name pd cells, tipo_aneel]))"

definition DDA_HEADER :: "string list" where
  "DDA_HEADER = [''campo'', ''pandas_dtype'', ''tipo_aneel'']"

text \<open>
  Steps 1 to 4 together: the table that \<^verbatim>\<open>dda_df.to_csv\<close> will write, the header line
  and one line per column of the sample.
\<close>

definition monta_dda ::
  "('n::zero) pandas \<Rightarrow> string \<Rightarrow> path \<Rightarrow> filesystem \<Rightarrow> exn + string list list" where
  "monta_dda pd tipo path fs =
     (case read_sample pd tipo path fs of
        Inl e \<Rightarrow> Inl e
      | Inr df \<Rightarrow>
          (let tipo_map = dict_of (map (\<lambda>col. (col, map_tipo_aneel col)) (columns df))
           in case ajusta_tipos pd tipo_map df of
                Inl e \<Rightarrow> Inl e
              | Inr df' \<Rightarrow>
                  (case map_exn (dda_row pd tipo_map df') (columns df') of
                     Inl e \<Rightarrow> Inl e
                   | Inr entries \<Rightarrow> Inr (DDA_HEADER # entries))))"

text \<open>
  Step 5:
  \<^verbatim>\<open>
  OUTPUT_DIR.mkdir(parents=True, exist_ok=True)
  out_path = OUTPUT_DIR / f"DDA_ANEEL_uc{tipo}_pj.csv"
  dda_df.to_csv(out_path, sep=";", encoding=ENCODING, index=False)
  print(f"Exportado: {out_path}\n")
  \<close>
\<close>

definition dda_path :: "string \<Rightarrow> path" where
  "dda_path tipo = OUTPUT_DIR @ [''DDA_ANEEL_uc'' @ tipo @ ''_pj.csv'']"

definition exporta_dda :: "string \<Rightarrow> string list list \<Rightarrow> 'n world \<Rightarrow> exn option \<times> 'n world" where
  "exporta_dda tipo dda w =
     (case mkdir_parents OUTPUT_DIR (files w) of
        Inl e \<Rightarrow> (Some e, w)
      | Inr fs1 \<Rightarrow>
          (let out_path = dda_path tipo
           in case write_file out_path (Delimited dda) fs1 of
                Inl e \<Rightarrow> (Some e, w\<lparr>files := fs1\<rparr>)
              | Inr fs2 \<Rightarrow> (None, print (Exportado out_path) (w\<lparr>files := fs2\<rparr>))))"

text \<open>The body of the \<^verbatim>\<open>try\<close> block of \<^verbatim>\<open>processar_tipo\<close>.\<close>

definition processar_try ::
  "('n::zero) pandas \<Rightarrow> string \<Rightarrow> path \<Rightarrow> 'n world \<Rightarrow> exn option \<times> 'n world" where
  "processar_try pd tipo path w =
     (case monta_dda pd tipo path (files w) of
        Inl e \<Rightarrow> (Some e, w)
      | Inr dda \<Rightarrow> exporta_dda tipo dda w)"

text \<open>
  \<^verbatim>\<open>except Exception\<close> catches every exception but those that are no \<^verbatim>\<open>Exception\<close>
  (\<^verbatim>\<open>SystemExit\<close>). The handler prints the error and the traceback; the \<^verbatim>\<open>finally\<close>
  block only frees memory.
  \<^verbatim>\<open>
  def processar_tipo(tipo: str, path: Path):
      print(f"Processando '{tipo}' -> {path.name}")
      try:
          ...
      except Exception as e:
          print(f"[ERROR] ao processar {tipo}: {e}")
          traceback.print_exc()
      finally:
          ...
  \<close>
\<close>

definition is_Exception :: "exn \<Rightarrow> bool" where
  "is_Exception e = (case e of SystemExit n \<Rightarrow> False | _ \<Rightarrow> True)"

definition path_name :: "path \<Rightarrow> string" where
  "path_name p = (if p = [] then [] else last p)"

definition processar_tipo ::
  "('n::zero) pandas \<Rightarrow> string \<Rightarrow> path \<Rightarrow> 'n world \<Rightarrow> exn option \<times> 'n world" where
  "processar_tipo pd tipo path w =
     (case processar_try pd tipo path (print (Processando tipo (path_name path)) w) of
        (None, w') \<Rightarrow> (None, w')
      | (Some e, w') \<Rightarrow>
          if is_Exception e
          then (None, print (Traceback e) (print (ERROR_ao_processar tipo e) w'))
          else (Some e, w'))"

subsection \<open>The whole run\<close>

text \<open>
  \<^verbatim>\<open>
  if __name__ == "__main__":
      verify_environment()
      for tp, p in FILES.items():
          processar_tipo(tp, p)
      print("DDA gerados para AT, MT e BT.")
  \<close>
\<close>

fun run_each ::
  "('a \<Rightarrow> 'w \<Rightarrow> exn option \<times> 'w) \<Rightarrow> 'a list \<Rightarrow> 'w \<Rightarrow> exn option \<times> 'w" where
  "run_each body [] w = (None, w)"
| "run_each body (x # xs) w =
     (case body x w of
        (Some e, w') \<Rightarrow> (Some e, w')
      | (None, w') \<Rightarrow> run_each body xs w')"

definition builder_main :: "('n::zero) pandas \<Rightarrow> 'n world \<Rightarrow> exn option \<times> 'n world" where
  "builder_main pd w =
     (case verify_environment w of
        (Some e, w1) \<Rightarrow> (Some e, w1)
      | (None, w1) \<Rightarrow>
          (case run_each (\<lambda>(tp, p). processar_tipo pd tp p) FILES w1 of
             (Some e, w2) \<Rightarrow> (Some e, w2)
           | (None, w2) \<Rightarrow> (None, print DDA_gerados w2)))"

section \<open>The typed loader (CriaePopulaSQLitePJ.py)\<close>

subsection \<open>Configuration\<close>

text \<open>
  \<^verbatim>\<open>INPUT_DIR\<close>, \<^verbatim>\<open>OUTPUT_DIR\<close>, \<^verbatim>\<open>DECIMAL\<close> and \<^verbatim>\<open>FILES\<close> have the values they have in
  the builder.
\<close>

definition DDA_DIR :: path where
  "DDA_DIR = [''C:'', ''Projetos'', ''TotalEnergie'', ''BaseDados'']"

definition DB_PATH :: path where
  "DB_PATH = OUTPUT_DIR @ [''mercadoucpj.db'']"

definition RECREATE_DB :: bool where
  "RECREATE_DB = True"

definition CHUNKSIZE :: nat where
  "CHUNKSIZE = 10000"

definition DATE_FIELDS :: "string list" where
  "DATE_FIELDS = [''DATA_BASE'']"

definition SQL_TYPE_MAP :: "('n cell \<times> sqltype) list" where
  "SQL_TYPE_MAP = [(Str ''INTEGER'', SQL_INTEGER), (Str ''REAL'', SQL_REAL),
                   (Str ''TEXT'', SQL_TEXT)]"

definition DDA_FILES :: "(string \<times> path) list" where
  "DDA_FILES = map (\<lambda>(tp, p). (tp, DDA_DIR @ [''DDA_ANEEL_uc'' @ tp @ ''_pj.csv''])) FILES"

subsection \<open>The check of the files\<close>

text \<open>
  \<^verbatim>\<open>
  def verify_files():
      missing = []
      if not INPUT_DIR.is_dir():
          missing.append(f"Input dir nao existe: {INPUT_DIR}")
      if not DDA_DIR.is_dir():
          missing.append(f"DDA dir nao existe: {DDA_DIR}")
      for tp, path in FILES.items():
          if not path.exists(): missing.append(f"Arquivo de dados faltando ({tp}): {path}")
      for tp, path in DDA_FILES.items():
          if not path.exists(): missing.append(f"DDA faltando ({tp}): {path}")
      if missing:
          for m in missing: print(f"[ERRO] {m}")
          sys.exit(1)
      print("Diretorios e arquivos necessarios encontrados.\n")
  \<close>
\<close>

definition loader_missing :: "filesystem \<Rightarrow> missing list" where
  "loader_missing fs =
     (if \<not> is_dir fs INPUT_DIR then [Input_dir_nao_existe INPUT_DIR] else [])
     @ (if \<not> is_dir fs DDA_DIR then [DDA_dir_nao_existe DDA_DIR] else [])
     @ concat (map (\<lambda>(tp, path).
         if \<not> path_exists fs path then [Arquivo_de_dados_faltando tp path] else []) FILES)
     @ concat (map (\<lambda>(tp, path).
         if \<not> path_exists fs path then [DDA_faltando tp path] else []) DDA_FILES)"

definition verify_files :: "'n world \<Rightarrow> exn option \<times> 'n world" where
  "verify_files w =
     (let missing = loader_missing (files w)
      in if missing \<noteq> [] then (Some (SystemExit 1), print_all (map ERRO missing) w)
         else (None, print Necessarios_encontrados w))"

subsection \<open>Reading the dictionary\<close>

text \<open>
  \<^verbatim>\<open>
  def load_dda(tp: str):
      dda_df = pd.read_csv(DDA_FILES[tp], sep=SEP, encoding=ENCODING, low_memory=False)
      return dict(zip(dda_df['campo'], dda_df['tipo_aneel']))
  \<close>
  No decimal separator is given here, so the reader takes the point. The keys and the
  values of the dictionary are cells of the frame that \<^verbatim>\<open>read_csv\<close> returns.
\<close>

definition load_dda ::
  "'n pandas \<Rightarrow> string \<Rightarrow> filesystem \<Rightarrow> exn + ('n cell \<times> 'n cell) list" where
  "load_dda pd tp fs =
     (case dict_get DDA_FILES tp of
        Inl e \<Rightarrow> Inl e
      | Inr path \<Rightarrow>
          (case open_delimited path fs of
             Inl e \<Rightarrow> Inl e
           | Inr tab \<Rightarrow>
               (case read_csv (csv_number pd CHR ''.'') tab of
                  Inl e \<Rightarrow> Inl e
                | Inr dda_df \<Rightarrow>
                    (case get_column dda_df ''campo'' of
                       Inl e \<Rightarrow> Inl e
                     | Inr campo \<Rightarrow>
                         (case get_column dda_df ''tipo_aneel'' of
                            Inl e \<Rightarrow> Inl e
                          | Inr tipo_aneel \<Rightarrow> Inr (dict_of (zip campo tipo_aneel)))))))"

subsection \<open>Reading the data in chunks\<close>

text \<open>
  \<^verbatim>\<open>read_data_chunk\<close> opens the file (for \<open>bt\<close>, the first \<^verbatim>\<open>.csv\<close> entry of the archive)
  and returns an iterator over frames of \<^verbatim>\<open>chunksize\<close> lines of data each, the last one
  with what is left. The model returns the header and the lines of data cut into such
  pieces; each piece becomes a frame when the loop asks for it, with the types pandas
  infers from that piece alone. A file with a header and no data gives one empty frame.
\<close>

function chunks :: "nat \<Rightarrow> 'a list \<Rightarrow> 'a list list" where
  "chunks n xs =
     (if n = 0 \<or> xs = [] then [] else take n xs # chunks n (drop n xs))"
  by pat_completeness auto
termination
  by (relation "measure (\<lambda>(n, xs). length xs)") auto

declare chunks.simps [simp del]

definition read_data_chunk ::
  "string \<Rightarrow> path \<Rightarrow> nat \<Rightarrow> filesystem \<Rightarrow> exn + string list \<times> string list list list" where
  "read_data_chunk tp path chunksize fs =
     (case (if tp \<in> set [''at'', ''mt''] then open_delimited path fs
            else (case open_zip path fs of
                    Inl e \<Rightarrow> Inl e
                  | Inr entries \<Rightarrow>
                      (case find (\<lambda>(f, tab). endswith (lower f) ''.csv'') entries of
                         None \<Rightarrow> Inl StopIteration
                       | Some (csv_name, tab) \<Rightarrow> Inr tab))) of
        Inl e \<Rightarrow> Inl e
      | Inr [] \<Rightarrow> Inl EmptyDataError
      | Inr (header # data) \<Rightarrow>
          if chunksize = 0 then Inl (ValueError ''chunksize must be an integer >= 1'')
          else Inr (header, if data = [] then [[]] else chunks chunksize data))"

subsection \<open>One dataset\<close>

text \<open>
  The conversion of one chunk:
  \<^verbatim>\<open>
  for col, t in tipo_map.items():
      if t in ('REAL','INTEGER'):
          chunk[col] = pd.to_numeric(chunk[col], errors='coerce').fillna(0)
      elif col in DATE_FIELDS:
          chunk[col] = chunk[col].apply(parse_date)
      else:
          chunk[col] = chunk[col].where(chunk[col].notna(), None)
  \<close>
  The labels of a chunk are strings, so a key of the dictionary that is no string is the
  label of no column.
\<close>

definition chunk_column ::
  "('n cell \<Rightarrow> 'n cell) \<Rightarrow> 'n cell \<Rightarrow> 'n frame \<Rightarrow> exn + 'n frame" where
  "chunk_column g key chunk =
     (case key of Str col \<Rightarrow> apply_column g col chunk | _ \<Rightarrow> Inl KeyError)"

definition converte_coluna ::
  "('n::zero) pandas \<Rightarrow> 'n cell \<times> 'n cell \<Rightarrow> 'n frame \<Rightarrow> exn + 'n frame" where
  "converte_coluna pd = (\<lambda>(col, t) chunk.
     if t \<in> set [Str ''REAL'', Str ''INTEGER'']
     then chunk_column (\<lambda>v. fillna 0 (to_numeric pd v)) col chunk
     else if col \<in> set (map Str DATE_FIELDS)
     then chunk_column parse_date col chunk
     else chunk_column where_notna col chunk)"

definition converte_chunk ::
  "('n::zero) pandas \<Rightarrow> ('n cell \<times> 'n cell) list \<Rightarrow> 'n frame \<Rightarrow> exn + 'n frame" where
  "converte_chunk pd tipo_map chunk = for_each (converte_coluna pd) tipo_map chunk"

text \<open>
  The loop over the chunks, with the variables \<^verbatim>\<open>first\<close> and \<^verbatim>\<open>batch\<close> and the tables
  of the database:
  \<^verbatim>\<open>
  for chunk in reader:
      batch += 1
      (the conversion above)
      if first:
          chunk.to_sql(f'uc_{tp}_pj', engine, if_exists='replace', index=False, dtype=dtype_map)
          first = False
      else:
          chunk.to_sql(f'uc_{tp}_pj', engine, if_exists='append', index=False)
  \<close>
  An exception leaves the loop with the tables as the chunks before it have left them.
\<close>

definition table_name :: "string \<Rightarrow> string" where
  "table_name tp = ''uc_'' @ tp @ ''_pj''"

fun importa_chunks ::
  "('n::zero) pandas \<Rightarrow> string \<Rightarrow> ('n cell \<times> 'n cell) list \<Rightarrow> ('n cell \<times> sqltype) list \<Rightarrow>
   string list \<Rightarrow> string list list list \<Rightarrow> bool \<Rightarrow> nat \<Rightarrow> 'n database \<Rightarrow>
   exn option \<times> nat \<times> 'n database" where
  "importa_chunks pd tp tipo_map dtype_map header [] first batch db = (None, batch, db)"
| "importa_chunks pd tp tipo_map dtype_map header (piece # rest) first batch db =
     (case read_csv (csv_number pd DECIMAL) (header # piece) of
        Inl e \<Rightarrow> (Some e, batch, db)
      | Inr chunk \<Rightarrow>
          (case converte_chunk pd tipo_map chunk of
             Inl e \<Rightarrow> (Some e, Suc batch, db)
           | Inr chunk' \<Rightarrow>
               importa_chunks pd tp tipo_map dtype_map header rest False (Suc batch)
                 (if first then to_sql_replace (table_name tp) dtype_map chunk' db
                  else to_sql_append (table_name tp) chunk' db)))"

text \<open>
  \<^verbatim>\<open>
  def importa_tipo(tp: str):
      print(f"Importando tipo {tp}...")
      tipo_map = load_dda(tp)
      dtype_map = {col: SQL_TYPE_MAP[tipo_map[col]]() for col in tipo_map}
      reader = read_data_chunk(tp, FILES[tp], CHUNKSIZE)
      first = True
      batch = 0
      for chunk in reader:
          ...
      print(f"-> {tp} concluido, {batch} batches importados.")
  \<close>
  The chunk size is a parameter of the model, so that a run with several chunks can be
  followed on a small file; the script passes \<^verbatim>\<open>CHUNKSIZE\<close>.
\<close>

definition make_dtype_map :: "('n cell \<times> 'n cell) list \<Rightarrow> exn + ('n cell \<times> sqltype) list" where
  "make_dtype_map tipo_map =
     map_exn (\<lambda>(col, t). case dict_get SQL_TYPE_MAP t of
                            Inl e \<Rightarrow> Inl e
                          | Inr ty \<Rightarrow> Inr (col, ty)) tipo_map"

definition importa_tipo_with ::
  "nat \<Rightarrow> ('n::zero) pandas \<Rightarrow> string \<Rightarrow> 'n world \<Rightarrow> exn option \<times> 'n world" where
  "importa_tipo_with chunksize pd tp w0 =
     (let w = print (Importando tp) w0
      in case load_dda pd tp (files w) of
           Inl e \<Rightarrow> (Some e, w)
         | Inr tipo_map \<Rightarrow>
             (case make_dtype_map tipo_map of
                Inl e \<Rightarrow> (Some e, w)
              | Inr dtype_map \<Rightarrow>
                  (case dict_get FILES tp of
                     Inl e \<Rightarrow> (Some e, w)
                   | Inr path \<Rightarrow>
                       (case read_data_chunk tp path chunksize (files w) of
                          Inl e \<Rightarrow> (Some e, w)
                        | Inr (header, pieces) \<Rightarrow>
                            (case importa_chunks pd tp tipo_map dtype_map header pieces
                                    True 0 (tables w) of
                               (Some e, batch, db) \<Rightarrow> (Some e, w\<lparr>tables := db\<rparr>)
                             | (None, batch, db) \<Rightarrow>
                                 (None, print (Concluido tp batch) (w\<lparr>tables := db\<rparr>)))))))"

definition importa_tipo :: "('n::zero) pandas \<Rightarrow> string \<Rightarrow> 'n world \<Rightarrow> exn option \<times> 'n world" where
  "importa_tipo = importa_tipo_with CHUNKSIZE"

subsection \<open>The whole run\<close>

text \<open>
  \<^verbatim>\<open>
  if __name__ == '__main__':
      verify_files()
      OUTPUT_DIR.mkdir(parents=True, exist_ok=True)
      if RECREATE_DB and DB_PATH.exists():
          DB_PATH.unlink()
      engine = create_engine(f'sqlite:///{DB_PATH}')
      for tp in ('at','mt','bt'):
          importa_tipo(tp)
      print("Importacao completa. DB em:", DB_PATH)
  \<close>
  Removing the database file removes its tables.
\<close>

definition unlink :: "path \<Rightarrow> 'n world \<Rightarrow> exn option \<times> 'n world" where
  "unlink p w =
     (case files w p of
        None \<Rightarrow> (Some (FileNotFoundError p), w)
      | Some Dir \<Rightarrow> (Some (IsADirectoryError p), w)
      | Some (File f) \<Rightarrow>
          (None, w\<lparr>files := (files w)(p := None),
                    tables := (if p = DB_PATH then Map.empty else tables w)\<rparr>))"

definition prepare_db :: "'n world \<Rightarrow> exn option \<times> 'n world" where
  "prepare_db w =
     (case mkdir_parents OUTPUT_DIR (files w) of
        Inl e \<Rightarrow> (Some e, w)
      | Inr fs1 \<Rightarrow>
          (let w1 = w\<lparr>files := fs1\<rparr>
           in if RECREATE_DB \<and> path_exists fs1 DB_PATH then unlink DB_PATH w1
              else (None, w1)))"

definition loader_main_with ::
  "nat \<Rightarrow> ('n::zero) pandas \<Rightarrow> 'n world \<Rightarrow> exn option \<times> 'n world" where
  "loader_main_with chunksize pd w =
     (case verify_files w of
        (Some e, w1) \<Rightarrow> (Some e, w1)
      | (None, w1) \<Rightarrow>
          (case prepare_db w1 of
             (Some e, w2) \<Rightarrow> (Some e, w2)
           | (None, w2) \<Rightarrow>
               (case run_each (importa_tipo_with chunksize pd) [''at'', ''mt'', ''bt''] w2 of
                  (Some e, w3) \<Rightarrow> (Some e, w3)
                | (None, w3) \<Rightarrow> (None, print (Importacao_completa DB_PATH) w3))))"

definition loader_main :: "('n::zero) pandas \<Rightarrow> 'n world \<Rightarrow> exn option \<times> 'n world" where
  "loader_main = loader_main_with CHUNKSIZE"

section \<open>The requirements of the two checks, as the specification lists them\<close>

text \<open>
  The specification of the loader names four kinds of requirement: the source directory
  exists, the dictionary directory exists, the source file of every configured dataset
  exists, the dictionary file of every configured dataset exists. Each requirement is
  paired here with the report of its violation.
\<close>

definition loader_requirements :: "filesystem \<Rightarrow> (bool \<times> missing) list" where
  "loader_requirements fs =
     [(is_dir fs INPUT_DIR, Input_dir_nao_existe INPUT_DIR),
      (is_dir fs DDA_DIR, DDA_dir_nao_existe DDA_DIR)]
     @ map (\<lambda>(tp, path). (path_exists fs path, Arquivo_de_dados_faltando tp path)) FILES
     @ map (\<lambda>(tp, path). (path_exists fs path, DDA_faltando tp path)) DDA_FILES"

definition violated :: "(bool \<times> missing) list \<Rightarrow> missing list" where
  "violated reqs = map snd (filter (\<lambda>(ok, m). \<not> ok) reqs)"

text \<open>
  For the builder the code checks two kinds: the source directory is a directory, and
  the source file of every configured dataset exists.
\<close>

definition builder_requirements :: "filesystem \<Rightarrow> (bool \<times> missing) list" where
  "builder_requirements fs =
     [(is_dir fs INPUT_DIR, Input_dir_nao_encontrado INPUT_DIR)]
     @ map (\<lambda>(tipo, path). (path_exists fs path, Arquivo_nao_encontrado tipo path)) FILES"

section \<open>Small instances to run the model on\<close>

text \<open>
  An instance of the pandas parameters over the integers: a number is a text of decimal
  digits, and a column of numbers is an \<open>int64\<close> column.
\<close>

definition digits_number :: "string \<Rightarrow> int option" where
  "digits_number s =
     (if s \<noteq> [] \<and> list_all is_digit s then Some (int (int_of_digits s)) else None)"

definition is_Num :: "'n cell \<Rightarrow> bool" where
  "is_Num v = (case v of Num x \<Rightarrow> True | _ \<Rightarrow> False)"

definition example_pandas :: "int pandas" where
  "example_pandas =
     \<lparr>csv_number = (\<lambda>decimal. digits_number),
      str_number = digits_number,
      dtype_name = (\<lambda>cells. if list_all is_Num cells then ''int64'' else ''object'')\<rparr>"

definition empty_world :: "int world" where
  "empty_world = \<lparr>files = Map.empty, tables = Map.empty, console = []\<rparr>"

text \<open>
  A world with the source directory and the three source files, and no target directory:
  only the drive and the folders above the sources are there.
\<close>

definition at_table :: "string list list" where
  "at_table = [[''COD_ID'', ''DEM_01'', ''DATA_BASE''],
               [''a1'', ''10'', ''31DEC2023:00:00:00.000000''],
               [''a2'', '''', ''x'']]"

definition sources_only :: filesystem where
  "sources_only = map_of
     [([''C:''], Dir), ([''C:'', ''Users''], Dir), ([''C:'', ''Users'', ''ivocy''], Dir),
      (INPUT_DIR, Dir),
      (INPUT_DIR @ [''ucat_pj.csv''], File (Delimited at_table)),
      (INPUT_DIR @ [''ucmt_pj.csv''], File Opaque),
      (INPUT_DIR @ [''ucbt_pj.zip''],
         File (Archive [(''leia.txt'', [[''x'']]), (''UCBT.CSV'', [[''FIC_1'', ''nome''], [''7'', ''b'']])]))]"

definition world_without_target :: "int world" where
  "world_without_target = \<lparr>files = sources_only, tables = Map.empty, console = []\<rparr>"

text \<open>
  A directory can be made at a path when the drive is there and no part of the path is a
  file: every part is a directory already or is free.
\<close>

definition can_create :: "filesystem \<Rightarrow> path \<Rightarrow> bool" where
  "can_create fs p =
     (p \<noteq> [] \<and> fs [hd p] = Some Dir
      \<and> (\<forall>q \<in> set (prefixes p). q \<noteq> [] \<longrightarrow> fs q = None \<or> fs q = Some Dir))"

text \<open>
  The same sources with a file where the folder \<^verbatim>\<open>C:/Projetos\<close> should be: the target
  directory cannot be made.
\<close>

definition world_blocked_target :: "int world" where
  "world_blocked_target =
     \<lparr>files = sources_only([''C:'', ''Projetos''] \<mapsto> File Opaque), tables = Map.empty,
      console = []\<rparr>"

section \<open>Properties of the type inference\<close>

lemma lower_char_idem: "lower_char (lower_char c) = lower_char c"
proof -
  have "of_char c < (256 :: nat)" by simp
  then show ?thesis
    unfolding lower_char_def Let_def by (auto simp: mod_if)
qed

lemma lower_idem: "lower (lower s) = lower s"
  by (simp add: lower_def lower_char_idem)

lemma startswith_prefix: "startswith s p = prefix p s"
  unfolding startswith_def prefix_def
  by (metis append_eq_conv_conj append_take_drop_id)

text \<open>
  Claim C1. The inferred type is a function of the lower-cased field name alone, and it is
  always one of the three type names: a name whose lower-cased form starts with \<open>fic_\<close>
  is INTEGER; one whose lower-cased form starts with \<open>dic_\<close>, \<open>dem_\<close> or \<open>ene_\<close>, or is
  \<open>point_x\<close> or \<open>point_y\<close>, is REAL; every other name is TEXT. Lower-casing the name first
  never changes the answer. The five names of the specification get the stated types.
\<close>

theorem map_tipo_aneel_rule:
  "map_tipo_aneel s = map_tipo_aneel (lower s)
   \<and> map_tipo_aneel s \<in> {''INTEGER'', ''REAL'', ''TEXT''}
   \<and> (prefix ''fic_'' (lower s) \<longrightarrow> map_tipo_aneel s = ''INTEGER'')
   \<and> (prefix ''dic_'' (lower s) \<or> prefix ''dem_'' (lower s) \<or> prefix ''ene_'' (lower s)
        \<or> lower s = ''point_x'' \<or> lower s = ''point_y''
      \<longrightarrow> map_tipo_aneel s = ''REAL'')
   \<and> (\<not> prefix ''fic_'' (lower s) \<and> \<not> prefix ''dic_'' (lower s)
        \<and> \<not> prefix ''dem_'' (lower s) \<and> \<not> prefix ''ene_'' (lower s)
        \<and> lower s \<noteq> ''point_x'' \<and> lower s \<noteq> ''point_y''
      \<longrightarrow> map_tipo_aneel s = ''TEXT'')
   \<and> map_tipo_aneel ''FIC_1'' = ''INTEGER''
   \<and> map_tipo_aneel ''dem_pot'' = ''REAL''
   \<and> map_tipo_aneel ''POINT_X'' = ''REAL''
   \<and> map_tipo_aneel ''point_y'' = ''REAL''
   \<and> map_tipo_aneel ''nom_cliente'' = ''TEXT''"
proof -
  have idem: "map_tipo_aneel s = map_tipo_aneel (lower s)"
    by (simp add: map_tipo_aneel_def lower_idem)
  have rng: "map_tipo_aneel s \<in> {''INTEGER'', ''REAL'', ''TEXT''}"
    by (simp add: map_tipo_aneel_def Let_def)
  have int_case: "prefix ''fic_'' (lower s) \<longrightarrow> map_tipo_aneel s = ''INTEGER''"
    by (simp add: map_tipo_aneel_def startswith_prefix)
  have real_case: "prefix ''dic_'' (lower s) \<or> prefix ''dem_'' (lower s) \<or> prefix ''ene_'' (lower s)
        \<or> lower s = ''point_x'' \<or> lower s = ''point_y''
      \<longrightarrow> map_tipo_aneel s = ''REAL''"
    by (auto simp: map_tipo_aneel_def startswith_any_def startswith_prefix prefix_def)
  have text_case: "\<not> prefix ''fic_'' (lower s) \<and> \<not> prefix ''dic_'' (lower s)
        \<and> \<not> prefix ''dem_'' (lower s) \<and> \<not> prefix ''ene_'' (lower s)
        \<and> lower s \<noteq> ''point_x'' \<and> lower s \<noteq> ''point_y''
      \<longrightarrow> map_tipo_aneel s = ''TEXT''"
    by (simp add: map_tipo_aneel_def startswith_any_def startswith_prefix)
  have ex1: "map_tipo_aneel ''FIC_1'' = ''INTEGER''"
    by code_simp
  have ex2: "map_tipo_aneel ''dem_pot'' = ''REAL''"
    by code_simp
  have ex3: "map_tipo_aneel ''POINT_X'' = ''REAL''"
    by code_simp
  have ex4: "map_tipo_aneel ''point_y'' = ''REAL''"
    by code_simp
  have ex5: "map_tipo_aneel ''nom_cliente'' = ''TEXT''"
    by code_simp
  from idem rng int_case real_case text_case ex1 ex2 ex3 ex4 ex5 show ?thesis by blast
qed

theorem map_tipo_aneel_rule_witness:
  "prefix ''fic_'' (lower ''Fic_Total'') \<and> map_tipo_aneel ''Fic_Total'' = ''INTEGER''
   \<and> prefix ''ene_'' (lower ''ENE_01'') \<and> map_tipo_aneel ''ENE_01'' = ''REAL''
   \<and> map_tipo_aneel ''Data_Base'' = ''TEXT''
   \<and> map_tipo_aneel ''Data_Base'' = map_tipo_aneel (lower ''Data_Base'')"
proof -
  have a: "prefix ''fic_'' (lower ''Fic_Total'')"
    by code_simp
  have b: "prefix ''ene_'' (lower ''ENE_01'')"
    by code_simp
  have c: "\<not> prefix ''fic_'' (lower ''Data_Base'') \<and> \<not> prefix ''dic_'' (lower ''Data_Base'')
        \<and> \<not> prefix ''dem_'' (lower ''Data_Base'') \<and> \<not> prefix ''ene_'' (lower ''Data_Base'')
        \<and> lower ''Data_Base'' \<noteq> ''point_x'' \<and> lower ''Data_Base'' \<noteq> ''point_y''"
    by code_simp
  show ?thesis
    using a b c map_tipo_aneel_rule [of "''Fic_Total''"]
      map_tipo_aneel_rule [of "''ENE_01''"] map_tipo_aneel_rule [of "''Data_Base''"]
    by blast
qed

section \<open>Properties of the date parser\<close>

lemma format_regex_seven_digits:
  "format_regex ''31DEC2023:00:00:00.0000000'' =
     [([''31'', ''DEC'', ''2023'', ''00'', ''00'', ''00'', ''000000''], ''0''),
      ([''31'', ''DEC'', ''2023'', ''00'', ''00'', ''00'', ''00000''], ''00''),
      ([''31'', ''DEC'', ''2023'', ''00'', ''00'', ''00'', ''0000''], ''000''),
      ([''31'', ''DEC'', ''2023'', ''00'', ''00'', ''00'', ''000''], ''0000''),
      ([''31'', ''DEC'', ''2023'', ''00'', ''00'', ''00'', ''00''], ''00000''),
      ([''31'', ''DEC'', ''2023'', ''00'', ''00'', ''00'', ''0''], ''000000'')]"
  by code_simp

lemma format_regex_six_digits:
  "format_regex ''31DEC2023:00:00:00.000000'' =
     [([''31'', ''DEC'', ''2023'', ''00'', ''00'', ''00'', ''000000''], []),
      ([''31'', ''DEC'', ''2023'', ''00'', ''00'', ''00'', ''00000''], ''0''),
      ([''31'', ''DEC'', ''2023'', ''00'', ''00'', ''00'', ''0000''], ''00''),
      ([''31'', ''DEC'', ''2023'', ''00'', ''00'', ''00'', ''000''], ''000''),
      ([''31'', ''DEC'', ''2023'', ''00'', ''00'', ''00'', ''00''], ''0000''),
      ([''31'', ''DEC'', ''2023'', ''00'', ''00'', ''00'', ''0''], ''00000'')]"
  by code_simp

lemma lower_DEC: "lower ''DEC'' = ''dec''"
  by code_simp

lemma strptime_seven_digits:
  "strptime ''31DEC2023:00:00:00.0000000'' = Inl (ValueError ''unconverted data remains'')"
  by (simp add: strptime_def format_regex_seven_digits)

lemma strptime_six_digits:
  "strptime ''31DEC2023:00:00:00.000000'' =
     Inr \<lparr>year = 2023, month = 12, day = 31, hour = 0, minute = 0, second = 0,
           microsecond = 0\<rparr>"
proof -
  have m: "index_from (Suc 0) ''dec'' a_month = Some 12"
    by (simp add: a_month_def)
  have n: "int_of_digits ''2023'' = 2023" "int_of_digits ''31'' = 31"
    "int_of_digits ''00'' = 0" "int_of_digits ''000000'' = 0"
    by (simp_all add: int_of_digits_def is_digit_def in_range_def)
  have d: "make_datetime 2023 12 31 0 0 0 0 =
     Inr \<lparr>year = 2023, month = 12, day = 31, hour = 0, minute = 0, second = 0,
           microsecond = 0\<rparr>"
    by (simp add: make_datetime_def days_in_month_def)
  show ?thesis
    by (simp add: strptime_def format_regex_six_digits lower_DEC m n d)
qed

text \<open>
  With six digits after the point, the text of the docstring's example is parsed and
  printed as the docstring says.
\<close>

lemma parse_date_six_digits:
  "parse_date (Str ''31DEC2023:00:00:00.000000'') = Str ''2023-12-31T00:00:00''"
  by (simp add: parse_date_def strptime_cell_def strptime_six_digits strftime_def
      pad2_def pad4_def digit_char_def)

text \<open>
  Whatever the cell, the result is the missing value or a string of the 19 characters
  of \<^verbatim>\<open>YYYY-MM-DDTHH:MM:SS\<close>: never a number, never the empty string.
\<close>

lemma parse_date_null_or_iso:
  "parse_date v = Null \<or> (\<exists>r. parse_date v = Str r \<and> length r = 19)"
  by (auto simp: parse_date_def strftime_def pad2_def pad4_def split: sum.splits)

text \<open>
  Claim C2. The docstring of \<^verbatim>\<open>parse_date\<close> and the specification give
  \<^verbatim>\<open>"31DEC2023:00:00:00.0000000"\<close> (seven digits after the point) as the example that
  becomes \<^verbatim>\<open>"2023-12-31T00:00:00"\<close>. The directive \<^verbatim>\<open>%f\<close> takes at most six digits, so
  the match stops one character before the end of the text, \<^verbatim>\<open>strptime\<close> raises
  \<^verbatim>\<open>ValueError\<close>, and the function returns the missing value for its own example.
\<close>

theorem parse_date_docstring_example:
  "parse_date (Str ''31DEC2023:00:00:00.0000000'') = Null"
  by (simp add: parse_date_def strptime_cell_def strptime_seven_digits)

section \<open>Properties of the pre-flight checks\<close>

lemma loader_missing_violated: "loader_missing fs = violated (loader_requirements fs)"
  by (simp add: loader_missing_def violated_def loader_requirements_def FILES_def DDA_FILES_def)

lemma builder_missing_violated: "builder_missing fs = violated (builder_requirements fs)"
  by (auto simp add: builder_missing_def violated_def builder_requirements_def FILES_def
      is_dir_def path_exists_def)

lemma length_violated: "length (violated reqs) = length (filter (\<lambda>r. \<not> fst r) reqs)"
  by (simp add: violated_def case_prod_unfold)

text \<open>
  Claim C5. The list that \<^verbatim>\<open>verify_files\<close> collects is the list of the violated
  requirements, all of them and in the order of the specification, so that \<open>N\<close> violated
  requirements give \<open>N\<close> reports. When the list is not empty the reports are printed, the
  run ends with \<^verbatim>\<open>sys.exit(1)\<close>, and nothing but the console has changed: no file, no
  table. When it is empty every requirement holds and the check lets the run go on.
\<close>

theorem verify_files_collects_all:
  "loader_missing (files w) = violated (loader_requirements (files w))
   \<and> length (loader_missing (files w))
       = length (filter (\<lambda>r. \<not> fst r) (loader_requirements (files w)))
   \<and> (loader_missing (files w) \<noteq> [] \<longrightarrow>
        verify_files w
          = (Some (SystemExit 1),
             w\<lparr>console := console w @ map ERRO (loader_missing (files w))\<rparr>)
        \<and> loader_main pd w
          = (Some (SystemExit 1),
             w\<lparr>console := console w @ map ERRO (loader_missing (files w))\<rparr>))
   \<and> (loader_missing (files w) = [] \<longrightarrow>
        fst (verify_files w) = None \<and> list_all fst (loader_requirements (files w)))"
proof -
  have a: "loader_missing (files w) = violated (loader_requirements (files w))"
    by (rule loader_missing_violated)
  have b: "length (loader_missing (files w))
       = length (filter (\<lambda>r. \<not> fst r) (loader_requirements (files w)))"
    by (simp add: a length_violated)
  have c: "loader_missing (files w) \<noteq> [] \<longrightarrow>
        verify_files w
          = (Some (SystemExit 1),
             w\<lparr>console := console w @ map ERRO (loader_missing (files w))\<rparr>)
        \<and> loader_main pd w
          = (Some (SystemExit 1),
             w\<lparr>console := console w @ map ERRO (loader_missing (files w))\<rparr>)"
    by (simp add: loader_main_def loader_main_with_def verify_files_def Let_def print_all_def)
  have d: "loader_missing (files w) = [] \<longrightarrow>
        fst (verify_files w) = None \<and> list_all fst (loader_requirements (files w))"
    by (auto simp add: a verify_files_def Let_def violated_def filter_empty_conv list_all_iff)
  from a b c d show ?thesis by blast
qed

lemma loader_missing_empty_world:
  "loader_missing (files empty_world) =
   [Input_dir_nao_existe INPUT_DIR, DDA_dir_nao_existe DDA_DIR,
    Arquivo_de_dados_faltando ''at'' (INPUT_DIR @ [''ucat_pj.csv'']),
    Arquivo_de_dados_faltando ''mt'' (INPUT_DIR @ [''ucmt_pj.csv'']),
    Arquivo_de_dados_faltando ''bt'' (INPUT_DIR @ [''ucbt_pj.zip'']),
    DDA_faltando ''at'' (DDA_DIR @ [''DDA_ANEEL_ucat_pj.csv'']),
    DDA_faltando ''mt'' (DDA_DIR @ [''DDA_ANEEL_ucmt_pj.csv'']),
    DDA_faltando ''bt'' (DDA_DIR @ [''DDA_ANEEL_ucbt_pj.csv''])]"
  by (simp add: loader_missing_def empty_world_def is_dir_def path_exists_def FILES_def
      DDA_FILES_def)

text \<open>With no file at all, the eight requirements are violated and eight reports are printed.\<close>

theorem verify_files_collects_all_witness:
  "loader_missing (files empty_world) \<noteq> []
   \<and> length (filter (\<lambda>r. \<not> fst r) (loader_requirements (files empty_world))) = 8
   \<and> fst (loader_main example_pandas empty_world) = Some (SystemExit 1)
   \<and> length (console (snd (loader_main example_pandas empty_world))) = 8
   \<and> tables (snd (loader_main example_pandas empty_world)) = tables empty_world"
proof -
  have ne: "loader_missing (files empty_world) \<noteq> []"
    by (simp add: loader_missing_empty_world)
  have len: "length (loader_missing (files empty_world)) = 8"
    by (simp add: loader_missing_empty_world)
  have con: "console empty_world = []"
    by (simp add: empty_world_def)
  note t = verify_files_collects_all [of empty_world example_pandas]
  from t have e1: "length (loader_missing (files empty_world))
       = length (filter (\<lambda>r. \<not> fst r) (loader_requirements (files empty_world)))"
    by blast
  from t ne have e2: "loader_main example_pandas empty_world
          = (Some (SystemExit 1),
             empty_world\<lparr>console := console empty_world
                @ map ERRO (loader_missing (files empty_world))\<rparr>)"
    by blast
  show ?thesis
    using ne len con e1 e2 by simp
qed

section \<open>Properties of the file system\<close>

lemma parent_long:
  assumes "\<not> length p \<le> 1"
  shows "parent p \<noteq> []" and "hd (parent p) = hd p" and "prefix (parent p) p"
    and "\<not> prefix p (parent p)" and "parent p \<noteq> p"
proof -
  from assms obtain x y zs where p: "p = x # y # zs"
    by (cases p; cases "tl p") auto
  have b: "parent p = butlast p" using assms by (simp add: parent_def)
  show "parent p \<noteq> []" by (simp add: parent_def p)
  show "hd (parent p) = hd p" by (simp add: parent_def p)
  show "prefix (parent p) p" by (simp add: b prefixeq_butlast)
  have "length (parent p) < length p" by (simp add: parent_def p)
  then show "\<not> prefix p (parent p)" by (auto dest: prefix_length_le)
  show "parent p \<noteq> p" using \<open>length (parent p) < length p\<close> by auto
qed

text \<open>
  When the drive is there and no part of the path is a file, \<^verbatim>\<open>mkdir(parents=True,
  exist_ok=True)\<close> succeeds: afterwards the path is a directory, what was there before is
  as it was, and nothing outside the path has changed.
\<close>

lemma mkdir_parents_creates:
  "p \<noteq> [] \<Longrightarrow> fs [hd p] = Some Dir \<Longrightarrow>
   (\<forall>q. prefix q p \<and> q \<noteq> [] \<longrightarrow> fs q = None \<or> fs q = Some Dir) \<Longrightarrow>
   \<exists>fs'. mkdir_parents p fs = Inr fs' \<and> fs' p = Some Dir
     \<and> (\<forall>q. fs' q = fs q \<or> (fs q = None \<and> fs' q = Some Dir))
     \<and> (\<forall>q. \<not> prefix q p \<longrightarrow> fs' q = fs q)"
proof (induction p fs rule: mkdir_parents.induct)
  case (1 p fs)
  show ?case
  proof (cases "fs p")
    case (Some n)
    with "1.prems" have "fs p = Some Dir" by auto
    then show ?thesis
      by (subst mkdir_parents.simps) (simp add: os_mkdir_def is_dir_def)
  next
    case None
    have len: "\<not> length p \<le> 1"
    proof
      assume "length p \<le> 1"
      with "1.prems"(1) have "p = [hd p]" by (cases p) auto
      with "1.prems"(2) None show False by simp
    qed
    note par = parent_long [OF len]
    show ?thesis
    proof (cases "fs (parent p)")
      case pNone: None
      have om: "os_mkdir p fs = Inl (FileNotFoundError p)"
        using None pNone by (simp add: os_mkdir_def)
      have pre: "\<forall>q. prefix q (parent p) \<and> q \<noteq> [] \<longrightarrow> fs q = None \<or> fs q = Some Dir"
      proof (intro allI impI)
        fix q assume q: "prefix q (parent p) \<and> q \<noteq> []"
        then have "prefix q p" using par(3) by (blast intro: prefix_order.trans)
        with q "1.prems"(3) show "fs q = None \<or> fs q = Some Dir" by blast
      qed
      have hd': "fs [hd (parent p)] = Some Dir" using "1.prems"(2) par(2) by simp
      from "1.IH" [OF om refl par(5) par(1) hd' pre]
      obtain fs1 where f1: "mkdir_parents (parent p) fs = Inr fs1" "fs1 (parent p) = Some Dir"
        "\<forall>q. fs1 q = fs q \<or> (fs q = None \<and> fs1 q = Some Dir)"
        "\<forall>q. \<not> prefix q (parent p) \<longrightarrow> fs1 q = fs q"
        by blast
      have "fs1 p = None" using f1(4) par(4) None by simp
      then have leaf: "mkdir_leaf p fs1 = Inr (fs1(p \<mapsto> Dir))"
        using f1(2) by (simp add: mkdir_leaf_def os_mkdir_def)
      have res: "mkdir_parents p fs = Inr (fs1(p \<mapsto> Dir))"
        by (subst mkdir_parents.simps) (simp add: om par(5) f1(1) leaf)
      have a: "\<forall>q. \<not> prefix q p \<longrightarrow> (fs1(p \<mapsto> Dir)) q = fs q"
      proof (intro allI impI)
        fix q assume q: "\<not> prefix q p"
        then have "\<not> prefix q (parent p)" using par(3) by (blast intro: prefix_order.trans)
        moreover have "q \<noteq> p" using q by auto
        ultimately show "(fs1(p \<mapsto> Dir)) q = fs q" using f1(4) by simp
      qed
      have b: "\<forall>q. (fs1(p \<mapsto> Dir)) q = fs q \<or> (fs q = None \<and> (fs1(p \<mapsto> Dir)) q = Some Dir)"
        using f1(3) None by auto
      show ?thesis using res a b by simp
    next
      case (Some n)
      have "fs (parent p) = None \<or> fs (parent p) = Some Dir"
        using "1.prems"(3) par(1) par(3) by blast
      with Some have "fs (parent p) = Some Dir" by simp
      then have "os_mkdir p fs = Inr (fs(p \<mapsto> Dir))"
        using None by (simp add: os_mkdir_def)
      then have "mkdir_parents p fs = Inr (fs(p \<mapsto> Dir))"
        by (subst mkdir_parents.simps) simp
      then show ?thesis using None by auto
    qed
  qed
qed

section \<open>The exceptions of one dataset are all caught\<close>

text \<open>
  Whatever the \<^verbatim>\<open>try\<close> block of \<^verbatim>\<open>processar_tipo\<close> raises is an \<^verbatim>\<open>Exception\<close>, so the
  handler catches it.
\<close>

lemma os_mkdir_cases:
  "os_mkdir p fs = Inr (fs(p \<mapsto> Dir)) \<or> os_mkdir p fs = Inl (FileExistsError p)
   \<or> os_mkdir p fs = Inl (FileNotFoundError p) \<or> os_mkdir p fs = Inl (NotADirectoryError p)"
  by (auto simp: os_mkdir_def split: option.splits node.splits)

lemma mkdir_leaf_exn: "mkdir_leaf p fs = Inl e \<Longrightarrow> is_Exception e"
  using os_mkdir_cases [of p fs]
  by (auto simp: mkdir_leaf_def is_Exception_def split: if_splits)

lemma mkdir_parents_exn: "mkdir_parents p fs = Inl e \<Longrightarrow> is_Exception e"
proof (induction p fs arbitrary: e rule: mkdir_parents.induct)
  case (1 p fs)
  from os_mkdir_cases [of p fs] show ?case
  proof (elim disjE)
    assume "os_mkdir p fs = Inr (fs(p \<mapsto> Dir))"
    with "1.prems" show ?thesis by (subst (asm) mkdir_parents.simps) simp
  next
    assume a: "os_mkdir p fs = Inl (FileExistsError p)"
    with "1.prems" show ?thesis
      by (subst (asm) mkdir_parents.simps) (auto simp: is_Exception_def split: if_splits)
  next
    assume a: "os_mkdir p fs = Inl (NotADirectoryError p)"
    with "1.prems" show ?thesis
      by (subst (asm) mkdir_parents.simps) (auto simp: is_Exception_def split: if_splits)
  next
    assume a: "os_mkdir p fs = Inl (FileNotFoundError p)"
    show ?thesis
    proof (cases "parent p = p")
      case True
      with a "1.prems" show ?thesis
        by (subst (asm) mkdir_parents.simps) (auto simp: is_Exception_def)
    next
      case False
      show ?thesis
      proof (cases "mkdir_parents (parent p) fs")
        case (Inl e')
        with a False "1.prems" have "e = e'"
          by (subst (asm) mkdir_parents.simps) simp
        with "1.IH" [OF a refl False Inl] show ?thesis by simp
      next
        case (Inr fs1)
        with a False "1.prems" have "mkdir_leaf p fs1 = Inl e"
          by (subst (asm) mkdir_parents.simps) simp
        then show ?thesis by (rule mkdir_leaf_exn)
      qed
    qed
  qed
qed

lemma write_file_exn: "write_file p f fs = Inl e \<Longrightarrow> is_Exception e"
  by (auto simp: write_file_def is_Exception_def split: option.splits node.splits)

lemma open_file_exn: "open_file p fs = Inl e \<Longrightarrow> is_Exception e"
  by (auto simp: open_file_def is_Exception_def split: option.splits node.splits)

lemma open_delimited_exn: "open_delimited p fs = Inl e \<Longrightarrow> is_Exception e"
  by (auto simp: open_delimited_def is_Exception_def dest: open_file_exn split: sum.splits contents.splits)

lemma open_zip_exn: "open_zip p fs = Inl e \<Longrightarrow> is_Exception e"
  by (auto simp: open_zip_def is_Exception_def dest: open_file_exn split: sum.splits contents.splits)

lemma read_csv_exn: "read_csv num tab = Inl e \<Longrightarrow> is_Exception e"
  by (auto simp: read_csv_def is_Exception_def Let_def split: list.splits if_splits)

lemma apply_column_exn: "apply_column g col df = Inl e \<Longrightarrow> is_Exception e"
  by (auto simp: apply_column_def is_Exception_def split: option.splits)

lemma get_column_exn: "get_column df col = Inl e \<Longrightarrow> is_Exception e"
  by (auto simp: get_column_def is_Exception_def split: option.splits)

lemma dict_get_exn: "dict_get d k = Inl e \<Longrightarrow> is_Exception e"
  by (auto simp: dict_get_def is_Exception_def split: option.splits)

lemma for_each_exn:
  "for_each body xs s = Inl e \<Longrightarrow> (\<And>x s e. body x s = Inl e \<Longrightarrow> is_Exception e) \<Longrightarrow> is_Exception e"
  by (induction xs arbitrary: s) (auto split: sum.splits)

lemma map_exn_exn:
  "map_exn f xs = Inl e \<Longrightarrow> (\<And>x e. f x = Inl e \<Longrightarrow> is_Exception e) \<Longrightarrow> is_Exception e"
  by (induction xs) (auto split: sum.splits)

lemma read_sample_exn: "read_sample pd tipo path fs = Inl e \<Longrightarrow> is_Exception e"
  by (auto simp: read_sample_def is_Exception_def
      dest: open_delimited_exn open_zip_exn read_csv_exn split: sum.splits option.splits if_splits)

lemma ajusta_coluna_exn: "ajusta_coluna pd x df = Inl e \<Longrightarrow> is_Exception e"
  by (cases x) (auto simp: ajusta_coluna_def dest: apply_column_exn split: if_splits)

lemma dda_row_exn: "dda_row pd tm df col = Inl e \<Longrightarrow> is_Exception e"
  by (auto simp: dda_row_def dest: get_column_exn dict_get_exn split: sum.splits)

lemma ajusta_tipos_exn: "ajusta_tipos pd tm df = Inl e \<Longrightarrow> is_Exception e"
  unfolding ajusta_tipos_def by (erule for_each_exn) (rule ajusta_coluna_exn)

lemma dda_rows_exn: "map_exn (dda_row pd tm df) cols = Inl e \<Longrightarrow> is_Exception e"
  by (erule map_exn_exn) (rule dda_row_exn)

lemma monta_dda_exn: "monta_dda pd tipo path fs = Inl e \<Longrightarrow> is_Exception e"
  unfolding monta_dda_def Let_def
  by (auto dest: read_sample_exn ajusta_tipos_exn dda_rows_exn split: sum.splits)

lemma exporta_dda_exn: "exporta_dda tipo dda w = (Some e, w') \<Longrightarrow> is_Exception e"
  by (auto simp: exporta_dda_def Let_def dest: mkdir_parents_exn write_file_exn split: sum.splits)

lemma processar_try_exn: "processar_try pd tipo path w = (Some e, w') \<Longrightarrow> is_Exception e"
  by (auto simp: processar_try_def dest: monta_dda_exn exporta_dda_exn split: sum.splits)

lemma processar_tipo_returns: "fst (processar_tipo pd tipo path w) = None"
  by (auto simp: processar_tipo_def dest: processar_try_exn split: prod.splits option.splits)

section \<open>The export of one dictionary\<close>

lemma monta_dda_local:
  "fs' path = fs path \<Longrightarrow> monta_dda pd tipo path fs' = monta_dda pd tipo path fs"
  by (simp add: monta_dda_def read_sample_def open_delimited_def open_zip_def open_file_def)

lemma dda_path_facts:
  "parent (dda_path tipo) = OUTPUT_DIR" "\<not> prefix (dda_path tipo) OUTPUT_DIR"
  "dda_path t = dda_path t' \<longleftrightarrow> t = t'"
  by (auto simp: dda_path_def parent_def OUTPUT_DIR_def prefix_def)

lemma source_not_target:
  "(tp, p) \<in> set FILES \<Longrightarrow> \<not> prefix p OUTPUT_DIR \<and> p \<noteq> dda_path tipo"
  by (auto simp: FILES_def INPUT_DIR_def OUTPUT_DIR_def dda_path_def)

lemma exporta_dda_ok:
  assumes c: "can_create (files w) OUTPUT_DIR" and d: "files w (dda_path tipo) \<noteq> Some Dir"
  shows "\<exists>fs1. fs1 OUTPUT_DIR = Some Dir
      \<and> (\<forall>q. fs1 q = files w q \<or> (files w q = None \<and> fs1 q = Some Dir))
      \<and> (\<forall>q. \<not> prefix q OUTPUT_DIR \<longrightarrow> fs1 q = files w q)
      \<and> exporta_dda tipo dda w
          = (None, w\<lparr>files := fs1(dda_path tipo \<mapsto> File (Delimited dda)),
                      console := console w @ [Exportado (dda_path tipo)]\<rparr>)"
proof -
  from c have "OUTPUT_DIR \<noteq> []" "files w [hd OUTPUT_DIR] = Some Dir"
    "\<forall>q. prefix q OUTPUT_DIR \<and> q \<noteq> [] \<longrightarrow> files w q = None \<or> files w q = Some Dir"
    by (auto simp: can_create_def)
  from mkdir_parents_creates [OF this]
  obtain fs1 where f: "mkdir_parents OUTPUT_DIR (files w) = Inr fs1" "fs1 OUTPUT_DIR = Some Dir"
    "\<forall>q. fs1 q = files w q \<or> (files w q = None \<and> fs1 q = Some Dir)"
    "\<forall>q. \<not> prefix q OUTPUT_DIR \<longrightarrow> fs1 q = files w q"
    by blast
  have "fs1 (dda_path tipo) = files w (dda_path tipo)"
    using f(4) dda_path_facts(2) by blast
  with d have nd: "fs1 (dda_path tipo) \<noteq> Some Dir" by simp
  have wr: "write_file (dda_path tipo) (Delimited dda) fs1
      = Inr (fs1(dda_path tipo \<mapsto> File (Delimited dda)))"
    using nd f(2) by (auto simp: write_file_def dda_path_facts(1) split: option.splits node.splits)
  have "exporta_dda tipo dda w
          = (None, w\<lparr>files := fs1(dda_path tipo \<mapsto> File (Delimited dda)),
                      console := console w @ [Exportado (dda_path tipo)]\<rparr>)"
    by (simp add: exporta_dda_def f(1) wr Let_def print_def)
  with f show ?thesis by blast
qed

lemma processar_tipo_fail:
  "monta_dda pd tipo path (files w) = Inl e \<Longrightarrow>
   processar_tipo pd tipo path w
     = (None, w\<lparr>console := console w @ [Processando tipo (path_name path),
                 ERROR_ao_processar tipo e, Traceback e]\<rparr>)"
  by (simp add: processar_tipo_def processar_try_def print_def monta_dda_exn)

lemma processar_tipo_ok:
  assumes m: "monta_dda pd tipo path (files w) = Inr dda"
    and c: "can_create (files w) OUTPUT_DIR" and d: "files w (dda_path tipo) \<noteq> Some Dir"
  shows "\<exists>fs1. fs1 OUTPUT_DIR = Some Dir
      \<and> (\<forall>q. fs1 q = files w q \<or> (files w q = None \<and> fs1 q = Some Dir))
      \<and> (\<forall>q. \<not> prefix q OUTPUT_DIR \<longrightarrow> fs1 q = files w q)
      \<and> processar_tipo pd tipo path w
          = (None, w\<lparr>files := fs1(dda_path tipo \<mapsto> File (Delimited dda)),
                      console := console w @ [Processando tipo (path_name path),
                        Exportado (dda_path tipo)]\<rparr>)"
proof -
  let ?w = "print (Processando tipo (path_name path)) w"
  have fw: "files ?w = files w" by (simp add: print_def)
  from exporta_dda_ok [of ?w tipo dda] c d fw
  obtain fs1 where f: "fs1 OUTPUT_DIR = Some Dir"
    "\<forall>q. fs1 q = files w q \<or> (files w q = None \<and> fs1 q = Some Dir)"
    "\<forall>q. \<not> prefix q OUTPUT_DIR \<longrightarrow> fs1 q = files w q"
    "exporta_dda tipo dda ?w
          = (None, ?w\<lparr>files := fs1(dda_path tipo \<mapsto> File (Delimited dda)),
                      console := console ?w @ [Exportado (dda_path tipo)]\<rparr>)"
    by auto
  have "processar_tipo pd tipo path w
          = (None, w\<lparr>files := fs1(dda_path tipo \<mapsto> File (Delimited dda)),
                      console := console w @ [Processando tipo (path_name path),
                        Exportado (dda_path tipo)]\<rparr>)"
    by (simp add: processar_tipo_def processar_try_def fw m f(4)) (simp add: print_def)
  with f show ?thesis by blast
qed

lemma can_create_after:
  assumes c: "can_create fs p" and f: "\<forall>q. fs1 q = fs q \<or> (fs q = None \<and> fs1 q = Some Dir)"
  shows "can_create fs1 p"
  using c f unfolding can_create_def by (metis option.distinct(1))

section \<open>The run of the builder over the three datasets\<close>

lemma files_FILES:
  "(''at'', INPUT_DIR @ [''ucat_pj.csv'']) \<in> set FILES"
  "(''mt'', INPUT_DIR @ [''ucmt_pj.csv'']) \<in> set FILES"
  "(''bt'', INPUT_DIR @ [''ucbt_pj.zip'']) \<in> set FILES"
  by (simp_all add: FILES_def)

lemma builder_main_runs_all:
  "builder_missing (files w) = [] \<Longrightarrow>
   builder_main pd w =
     (None, print DDA_gerados
       (snd (processar_tipo pd ''bt'' (INPUT_DIR @ [''ucbt_pj.zip''])
         (snd (processar_tipo pd ''mt'' (INPUT_DIR @ [''ucmt_pj.csv''])
           (snd (processar_tipo pd ''at'' (INPUT_DIR @ [''ucat_pj.csv''])
             (print Encontrados w))))))))"
proof -
  assume a: "builder_missing (files w) = []"
  have r: "\<And>tipo path w. processar_tipo pd tipo path w = (None, snd (processar_tipo pd tipo path w))"
    using processar_tipo_returns by (metis prod.collapse)
  show ?thesis
    unfolding builder_main_def verify_environment_def Let_def FILES_def
    using a
    apply simp
    apply (subst r, simp)
    apply (subst r, simp)
    apply (subst r, simp)
    done
qed

lemma builder_partial_success:
  assumes v: "builder_missing (files w) = []"
    and c: "can_create (files w) OUTPUT_DIR"
    and da: "files w (dda_path ''at'') \<noteq> Some Dir" and db: "files w (dda_path ''bt'') \<noteq> Some Dir"
    and ma: "monta_dda pd ''at'' (INPUT_DIR @ [''ucat_pj.csv'']) (files w) = Inr a"
    and mm: "monta_dda pd ''mt'' (INPUT_DIR @ [''ucmt_pj.csv'']) (files w) = Inl e"
    and mb: "monta_dda pd ''bt'' (INPUT_DIR @ [''ucbt_pj.zip'']) (files w) = Inr b"
  shows "\<exists>w'. builder_main pd w = (None, w')
      \<and> files w' (dda_path ''at'') = Some (File (Delimited a))
      \<and> files w' (dda_path ''bt'') = Some (File (Delimited b))
      \<and> files w' (dda_path ''mt'') = files w (dda_path ''mt'')
      \<and> is_dir (files w') OUTPUT_DIR
      \<and> console w' = console w @ [Encontrados,
           Processando ''at'' ''ucat_pj.csv'', Exportado (dda_path ''at''),
           Processando ''mt'' ''ucmt_pj.csv'', ERROR_ao_processar ''mt'' e, Traceback e,
           Processando ''bt'' ''ucbt_pj.zip'', Exportado (dda_path ''bt''), DDA_gerados]"
proof -
  let ?pa = "INPUT_DIR @ [''ucat_pj.csv'']" and ?pm = "INPUT_DIR @ [''ucmt_pj.csv'']"
    and ?pb = "INPUT_DIR @ [''ucbt_pj.zip'']"
  let ?w1 = "print Encontrados w"
  have f1: "files ?w1 = files w" and c1: "console ?w1 = console w @ [Encontrados]"
    by (simp_all add: print_def)
  from processar_tipo_ok [of pd "''at''" ?pa ?w1 a] ma c da f1
  obtain fs1 where A: "fs1 OUTPUT_DIR = Some Dir"
    "\<forall>q. fs1 q = files w q \<or> (files w q = None \<and> fs1 q = Some Dir)"
    "\<forall>q. \<not> prefix q OUTPUT_DIR \<longrightarrow> fs1 q = files w q"
    "processar_tipo pd ''at'' ?pa ?w1
          = (None, ?w1\<lparr>files := fs1(dda_path ''at'' \<mapsto> File (Delimited a)),
                      console := console ?w1 @ [Processando ''at'' (path_name ?pa),
                        Exportado (dda_path ''at'')]\<rparr>)"
    by auto
  define fsA where "fsA = fs1(dda_path ''at'' \<mapsto> File (Delimited a))"
  define wA where "wA = ?w1\<lparr>files := fsA,
                      console := console ?w1 @ [Processando ''at'' (path_name ?pa),
                        Exportado (dda_path ''at'')]\<rparr>"
  have sA: "snd (processar_tipo pd ''at'' ?pa ?w1) = wA"
    by (simp add: A(4) wA_def fsA_def)
  have fA: "files wA = fsA" by (simp add: wA_def)
  have fsA_src: "fsA p = files w p" if "(tp, p) \<in> set FILES" for tp p
    using source_not_target [OF that, of "''at''"] A(3) by (simp add: fsA_def)
  have mmA: "monta_dda pd ''mt'' ?pm (files wA) = Inl e"
    using monta_dda_local [of fsA ?pm "files w" pd "''mt''"] fsA_src [OF files_FILES(2)] mm fA
    by simp
  define wM where "wM = wA\<lparr>console := console wA @ [Processando ''mt'' (path_name ?pm),
                 ERROR_ao_processar ''mt'' e, Traceback e]\<rparr>"
  have sM: "snd (processar_tipo pd ''mt'' ?pm wA) = wM"
    by (simp add: processar_tipo_fail [OF mmA] wM_def)
  have fM: "files wM = fsA" by (simp add: wM_def fA)
  have mbM: "monta_dda pd ''bt'' ?pb (files wM) = Inr b"
    using monta_dda_local [of fsA ?pb "files w" pd "''bt''"] fsA_src [OF files_FILES(3)] mb fM
    by simp
  have fsA_grow: "\<forall>q. fsA q = files w q \<or> (files w q = None \<and> fsA q = Some Dir)
      \<or> q = dda_path ''at''"
    using A(2) by (simp add: fsA_def)
  have cM: "can_create (files wM) OUTPUT_DIR"
  proof -
    have "\<forall>q. prefix q OUTPUT_DIR \<longrightarrow> fsA q = fs1 q"
      using dda_path_facts(2) [of "''at''"] by (auto simp: fsA_def)
    moreover have "can_create fs1 OUTPUT_DIR"
      using can_create_after [OF c A(2)] .
    ultimately show ?thesis
      unfolding can_create_def fM by (auto simp: in_set_prefixes OUTPUT_DIR_def)
  qed
  have dbM: "files wM (dda_path ''bt'') \<noteq> Some Dir"
    using A(3) dda_path_facts(2) [of "''bt''"] db by (simp add: fM fsA_def dda_path_facts(3))
  from processar_tipo_ok [OF mbM cM dbM]
  obtain fs2 where B: "fs2 OUTPUT_DIR = Some Dir"
    "\<forall>q. \<not> prefix q OUTPUT_DIR \<longrightarrow> fs2 q = files wM q"
    "processar_tipo pd ''bt'' ?pb wM
          = (None, wM\<lparr>files := fs2(dda_path ''bt'' \<mapsto> File (Delimited b)),
                      console := console wM @ [Processando ''bt'' (path_name ?pb),
                        Exportado (dda_path ''bt'')]\<rparr>)"
    by auto
  define wB where "wB = wM\<lparr>files := fs2(dda_path ''bt'' \<mapsto> File (Delimited b)),
                      console := console wM @ [Processando ''bt'' (path_name ?pb),
                        Exportado (dda_path ''bt'')]\<rparr>"
  have sB: "snd (processar_tipo pd ''bt'' ?pb wM) = wB"
    by (simp add: B(3) wB_def)
  have main: "builder_main pd w = (None, print DDA_gerados wB)"
    by (simp add: builder_main_runs_all [OF v] sA sM sB)
  have "fs2 (dda_path ''at'') = fsA (dda_path ''at'')"
    using B(2) dda_path_facts(2) [of "''at''"] fM by simp
  then have ra: "files (print DDA_gerados wB) (dda_path ''at'') = Some (File (Delimited a))"
    by (simp add: print_def wB_def fsA_def dda_path_facts(3))
  have rb: "files (print DDA_gerados wB) (dda_path ''bt'') = Some (File (Delimited b))"
    by (simp add: print_def wB_def)
  have "fs2 (dda_path ''mt'') = fsA (dda_path ''mt'')"
    using B(2) dda_path_facts(2) [of "''mt''"] fM by simp
  moreover have "fsA (dda_path ''mt'') = files w (dda_path ''mt'')"
    using A(3) dda_path_facts(2) [of "''mt''"] by (simp add: fsA_def dda_path_facts(3))
  ultimately have rm: "files (print DDA_gerados wB) (dda_path ''mt'') = files w (dda_path ''mt'')"
    by (simp add: print_def wB_def dda_path_facts(3))
  have rd: "is_dir (files (print DDA_gerados wB)) OUTPUT_DIR"
    using B(1) dda_path_facts(2) [of "''bt''"] by (auto simp: print_def wB_def is_dir_def)
  have rc: "console (print DDA_gerados wB) = console w @ [Encontrados,
           Processando ''at'' ''ucat_pj.csv'', Exportado (dda_path ''at''),
           Processando ''mt'' ''ucmt_pj.csv'', ERROR_ao_processar ''mt'' e, Traceback e,
           Processando ''bt'' ''ucbt_pj.zip'', Exportado (dda_path ''bt''), DDA_gerados]"
    by (simp add: print_def wB_def wM_def wA_def path_name_def)
  from main ra rb rm rd rc show ?thesis by blast
qed

section \<open>The example worlds\<close>

lemmas eval_csv = read_csv_def Let_def convert_column_def is_na_def STR_NA_VALUES_def
  digits_number_def is_digit_def in_range_def int_of_digits_def TRUE_VALUES_def FALSE_VALUES_def
  upt_rec

lemmas eval_monta = monta_dda_def read_sample_def open_delimited_def open_zip_def open_file_def
  example_pandas_def NROWS_def DECIMAL_def dict_of_def ajusta_tipos_def ajusta_coluna_def
  apply_column_def get_column_def dda_row_def dict_get_def DDA_HEADER_def is_Num_def
  to_numeric_def fillna_def where_notna_def notna_def endswith_def

lemma map_tipo_aneel_examples:
  "map_tipo_aneel ''COD_ID'' = ''TEXT''" "map_tipo_aneel ''DEM_01'' = ''REAL''"
  "map_tipo_aneel ''DATA_BASE'' = ''TEXT''" "map_tipo_aneel ''FIC_1'' = ''INTEGER''"
  "map_tipo_aneel ''nome'' = ''TEXT''" "map_tipo_aneel ''NA'' = ''TEXT''"
  by code_simp+

lemma lower_examples: "lower ''leia.txt'' = ''leia.txt''" "lower ''UCBT.CSV'' = ''ucbt.csv''"
  by code_simp+

lemma sources_only_at:
  "sources_only (INPUT_DIR @ [''ucat_pj.csv'']) = Some (File (Delimited at_table))"
  by (simp add: sources_only_def INPUT_DIR_def)

lemma sources_only_mt: "sources_only (INPUT_DIR @ [''ucmt_pj.csv'']) = Some (File Opaque)"
  by (simp add: sources_only_def INPUT_DIR_def)

lemma sources_only_bt:
  "sources_only (INPUT_DIR @ [''ucbt_pj.zip'']) =
     Some (File (Archive [(''leia.txt'', [[''x'']]),
                          (''UCBT.CSV'', [[''FIC_1'', ''nome''], [''7'', ''b'']])]))"
  by (simp add: sources_only_def INPUT_DIR_def)

lemma monta_dda_example_at:
  "monta_dda example_pandas ''at'' (INPUT_DIR @ [''ucat_pj.csv'']) sources_only =
     Inr [[''campo'', ''pandas_dtype'', ''tipo_aneel''], [''COD_ID'', ''object'', ''TEXT''],
          [''DEM_01'', ''int64'', ''REAL''], [''DATA_BASE'', ''object'', ''TEXT'']]"
  by (simp add: eval_monta sources_only_at at_table_def eval_csv map_tipo_aneel_examples)

lemma monta_dda_example_mt:
  "monta_dda example_pandas ''mt'' (INPUT_DIR @ [''ucmt_pj.csv'']) sources_only =
     Inl (ParserError ''Error tokenizing data'')"
  by (simp add: eval_monta sources_only_mt)

lemma monta_dda_example_bt:
  "monta_dda example_pandas ''bt'' (INPUT_DIR @ [''ucbt_pj.zip'']) sources_only =
     Inr [[''campo'', ''pandas_dtype'', ''tipo_aneel''], [''FIC_1'', ''int64'', ''INTEGER''],
          [''nome'', ''object'', ''TEXT'']]"
  by (simp add: eval_monta sources_only_bt lower_examples eval_csv map_tipo_aneel_examples)

lemma sources_only_checks:
  "builder_missing sources_only = []" "can_create sources_only OUTPUT_DIR"
  "sources_only OUTPUT_DIR = None" "sources_only (dda_path tipo) = None"
  by (simp_all add: builder_missing_def can_create_def sources_only_def INPUT_DIR_def
      OUTPUT_DIR_def FILES_def path_exists_def is_dir_def dda_path_def prefixes_snoc [symmetric])

lemma blocked_mkdir:
  "mkdir_parents OUTPUT_DIR (files world_blocked_target) =
     Inl (NotADirectoryError [''C:'', ''Projetos'', ''TotalEnergie''])"
  by (simp add: mkdir_parents.simps os_mkdir_def parent_def is_dir_def world_blocked_target_def
      sources_only_def INPUT_DIR_def OUTPUT_DIR_def)

section \<open>The claims about the builder's errors\<close>

text \<open>
  Claim C6, as the specification states it, makes a missing target directory a fatal
  error of the check. The check does not look at the target directory: in a world with
  the sources and without \<^verbatim>\<open>OUTPUT_DIR\<close> it passes, the run goes to its end, and the
  directory is there afterwards.
\<close>

theorem missing_target_not_fatal:
  "\<not> path_exists (files world_without_target) OUTPUT_DIR
   \<and> fst (verify_environment world_without_target) = None
   \<and> fst (builder_main example_pandas world_without_target) = None
   \<and> is_dir (files (snd (builder_main example_pandas world_without_target))) OUTPUT_DIR"
proof -
  have f: "files world_without_target = sources_only"
    by (simp add: world_without_target_def)
  have a: "\<not> path_exists (files world_without_target) OUTPUT_DIR"
    by (simp add: f path_exists_def sources_only_checks)
  have b: "fst (verify_environment world_without_target) = None"
    by (simp add: verify_environment_def f sources_only_checks)
  have ok: "builder_missing (files world_without_target) = []"
    and cc: "can_create (files world_without_target) OUTPUT_DIR"
    and da: "files world_without_target (dda_path ''at'') \<noteq> Some Dir"
    and db: "files world_without_target (dda_path ''bt'') \<noteq> Some Dir"
    by (simp_all add: f sources_only_checks)
  have ma: "monta_dda example_pandas ''at'' (INPUT_DIR @ [''ucat_pj.csv''])
      (files world_without_target) = Inr [[''campo'', ''pandas_dtype'', ''tipo_aneel''],
          [''COD_ID'', ''object'', ''TEXT''], [''DEM_01'', ''int64'', ''REAL''],
          [''DATA_BASE'', ''object'', ''TEXT'']]"
    by (simp add: f monta_dda_example_at)
  have mm: "monta_dda example_pandas ''mt'' (INPUT_DIR @ [''ucmt_pj.csv''])
      (files world_without_target) = Inl (ParserError ''Error tokenizing data'')"
    by (simp add: f monta_dda_example_mt)
  have mb: "monta_dda example_pandas ''bt'' (INPUT_DIR @ [''ucbt_pj.zip''])
      (files world_without_target) = Inr [[''campo'', ''pandas_dtype'', ''tipo_aneel''],
          [''FIC_1'', ''int64'', ''INTEGER''], [''nome'', ''object'', ''TEXT'']]"
    by (simp add: f monta_dda_example_bt)
  from builder_partial_success [OF ok cc da db ma mm mb]
  obtain w' where "builder_main example_pandas world_without_target = (None, w')"
    "is_dir (files w') OUTPUT_DIR"
    by blast
  with a b show ?thesis by simp
qed

text \<open>
  Claim C6, amended. What the check of the builder collects is the list of the violated
  requirements on the sources: the source directory is a directory, each source file
  exists. When one is violated every violation is printed and the run ends with
  \<^verbatim>\<open>sys.exit(1)\<close> before any dataset is processed, leaving files and tables as they
  were. The target directory has no part in the check: whatever is put at its path, the
  list is the same.
\<close>

theorem verify_environment_preflight:
  "builder_missing (files w) = violated (builder_requirements (files w))
   \<and> (builder_missing (files w) \<noteq> [] \<longrightarrow>
        builder_main pd w
          = (Some (SystemExit 1),
             w\<lparr>console := console w @ map ERRO (builder_missing (files w))\<rparr>))
   \<and> (builder_missing (files w) = [] \<longrightarrow>
        fst (verify_environment w) = None \<and> list_all fst (builder_requirements (files w)))
   \<and> builder_missing ((files w)(OUTPUT_DIR := x)) = builder_missing (files w)"
proof -
  have a: "builder_missing (files w) = violated (builder_requirements (files w))"
    by (rule builder_missing_violated)
  have b: "builder_missing (files w) \<noteq> [] \<longrightarrow>
        builder_main pd w
          = (Some (SystemExit 1),
             w\<lparr>console := console w @ map ERRO (builder_missing (files w))\<rparr>)"
    by (simp add: builder_main_def verify_environment_def Let_def print_all_def)
  have c: "builder_missing (files w) = [] \<longrightarrow>
        fst (verify_environment w) = None \<and> list_all fst (builder_requirements (files w))"
    by (auto simp add: a verify_environment_def Let_def violated_def filter_empty_conv
        list_all_iff)
  have d: "builder_missing ((files w)(OUTPUT_DIR := x)) = builder_missing (files w)"
    by (simp add: builder_missing_def path_exists_def is_dir_def FILES_def INPUT_DIR_def
        OUTPUT_DIR_def)
  from a b c d show ?thesis by blast
qed

lemma builder_missing_empty_world:
  "builder_missing (files empty_world) =
   [Input_dir_nao_encontrado INPUT_DIR,
    Arquivo_nao_encontrado ''at'' (INPUT_DIR @ [''ucat_pj.csv'']),
    Arquivo_nao_encontrado ''mt'' (INPUT_DIR @ [''ucmt_pj.csv'']),
    Arquivo_nao_encontrado ''bt'' (INPUT_DIR @ [''ucbt_pj.zip''])]"
  by (simp add: builder_missing_def empty_world_def is_dir_def path_exists_def FILES_def)

theorem verify_environment_preflight_witness:
  "builder_missing (files empty_world) \<noteq> []
   \<and> fst (builder_main example_pandas empty_world) = Some (SystemExit 1)
   \<and> length (console (snd (builder_main example_pandas empty_world))) = 4
   \<and> builder_missing (files world_without_target) = []
   \<and> fst (verify_environment world_without_target) = None"
proof -
  have ne: "builder_missing (files empty_world) \<noteq> []"
    by (simp add: builder_missing_empty_world)
  have len: "length (builder_missing (files empty_world)) = 4"
    by (simp add: builder_missing_empty_world)
  have con: "console empty_world = []"
    by (simp add: empty_world_def)
  note t = verify_environment_preflight [of empty_world example_pandas]
  from t ne have e: "builder_main example_pandas empty_world
          = (Some (SystemExit 1),
             empty_world\<lparr>console := console empty_world
                @ map ERRO (builder_missing (files empty_world))\<rparr>)"
    by blast
  have ok: "builder_missing (files world_without_target) = []"
    by (simp add: world_without_target_def sources_only_checks)
  note u = verify_environment_preflight [of world_without_target example_pandas]
  from u ok have v: "fst (verify_environment world_without_target) = None"
    by blast
  show ?thesis using ne len con e ok v by simp
qed

text \<open>
  Claim C10. When the target directory can be made (the drive is there and no part of
  the path is a file) and the path of the dictionary is not a directory, the export
  succeeds, whether the target directory was there or not: afterwards it is a directory
  and the dictionary is in it. The creation is a step of the \<^verbatim>\<open>try\<close> block of
  \<^verbatim>\<open>processar_tipo\<close>: when it fails, the handler of that dataset prints the error and the
  traceback, and the call returns.
\<close>

theorem exporta_dda_creates_target:
  "(can_create (files w) OUTPUT_DIR \<and> files w (dda_path tipo) \<noteq> Some Dir \<longrightarrow>
      (\<exists>w'. exporta_dda tipo dda w = (None, w') \<and> is_dir (files w') OUTPUT_DIR
        \<and> files w' (dda_path tipo) = Some (File (Delimited dda))))
   \<and> (monta_dda pd tipo path (files w) = Inr dda
        \<and> mkdir_parents OUTPUT_DIR (files w) = Inl e \<longrightarrow>
      processar_tipo pd tipo path w
        = (None, w\<lparr>console := console w @ [Processando tipo (path_name path),
                      ERROR_ao_processar tipo e, Traceback e]\<rparr>))"
proof -
  have a: "can_create (files w) OUTPUT_DIR \<and> files w (dda_path tipo) \<noteq> Some Dir \<longrightarrow>
      (\<exists>w'. exporta_dda tipo dda w = (None, w') \<and> is_dir (files w') OUTPUT_DIR
        \<and> files w' (dda_path tipo) = Some (File (Delimited dda)))"
  proof
    assume h: "can_create (files w) OUTPUT_DIR \<and> files w (dda_path tipo) \<noteq> Some Dir"
    from exporta_dda_ok [of w tipo dda] h
    obtain fs1 where f: "fs1 OUTPUT_DIR = Some Dir"
      "exporta_dda tipo dda w
          = (None, w\<lparr>files := fs1(dda_path tipo \<mapsto> File (Delimited dda)),
                      console := console w @ [Exportado (dda_path tipo)]\<rparr>)"
      by blast
    have "OUTPUT_DIR \<noteq> dda_path tipo" by (simp add: dda_path_def)
    with f show "\<exists>w'. exporta_dda tipo dda w = (None, w') \<and> is_dir (files w') OUTPUT_DIR
        \<and> files w' (dda_path tipo) = Some (File (Delimited dda))"
      by (simp add: is_dir_def)
  qed
  have b: "monta_dda pd tipo path (files w) = Inr dda
        \<and> mkdir_parents OUTPUT_DIR (files w) = Inl e \<longrightarrow>
      processar_tipo pd tipo path w
        = (None, w\<lparr>console := console w @ [Processando tipo (path_name path),
                      ERROR_ao_processar tipo e, Traceback e]\<rparr>)"
    by (auto simp add: processar_tipo_def processar_try_def exporta_dda_def print_def
        dest: mkdir_parents_exn)
  from a b show ?thesis by blast
qed

lemma monta_dda_blocked_at:
  "monta_dda example_pandas ''at'' (INPUT_DIR @ [''ucat_pj.csv'']) (files world_blocked_target) =
     Inr [[''campo'', ''pandas_dtype'', ''tipo_aneel''], [''COD_ID'', ''object'', ''TEXT''],
          [''DEM_01'', ''int64'', ''REAL''], [''DATA_BASE'', ''object'', ''TEXT'']]"
proof -
  have "files world_blocked_target (INPUT_DIR @ [''ucat_pj.csv''])
      = sources_only (INPUT_DIR @ [''ucat_pj.csv''])"
    by (simp add: world_blocked_target_def INPUT_DIR_def)
  from monta_dda_local [of "files world_blocked_target" "INPUT_DIR @ [''ucat_pj.csv'']"
      sources_only example_pandas "''at''", OF this]
  show ?thesis
    by (simp add: monta_dda_example_at)
qed

theorem exporta_dda_creates_target_witness:
  "\<not> path_exists (files world_without_target) OUTPUT_DIR
   \<and> can_create (files world_without_target) OUTPUT_DIR
   \<and> (\<exists>w'. exporta_dda ''at'' [DDA_HEADER] world_without_target = (None, w')
         \<and> is_dir (files w') OUTPUT_DIR
         \<and> files w' (dda_path ''at'') = Some (File (Delimited [DDA_HEADER])))
   \<and> fst (processar_tipo example_pandas ''at'' (INPUT_DIR @ [''ucat_pj.csv''])
            world_blocked_target) = None
   \<and> Traceback (NotADirectoryError [''C:'', ''Projetos'', ''TotalEnergie''])
       \<in> set (console (snd (processar_tipo example_pandas ''at''
            (INPUT_DIR @ [''ucat_pj.csv'']) world_blocked_target)))"
proof -
  have f: "files world_without_target = sources_only"
    by (simp add: world_without_target_def)
  have a: "\<not> path_exists (files world_without_target) OUTPUT_DIR"
    by (simp add: f path_exists_def sources_only_checks)
  have c: "can_create (files world_without_target) OUTPUT_DIR"
    "files world_without_target (dda_path ''at'') \<noteq> Some Dir"
    by (simp_all add: f sources_only_checks)
  from exporta_dda_creates_target
    [where w = world_without_target and tipo = "''at''" and dda = "[DDA_HEADER]"] c
  have g: "\<exists>w'. exporta_dda ''at'' [DDA_HEADER] world_without_target = (None, w')
         \<and> is_dir (files w') OUTPUT_DIR
         \<and> files w' (dda_path ''at'') = Some (File (Delimited [DDA_HEADER]))"
    by blast
  from exporta_dda_creates_target
    [where w = world_blocked_target and tipo = "''at''" and pd = example_pandas
      and path = "INPUT_DIR @ [''ucat_pj.csv'']"
      and e = "NotADirectoryError [''C:'', ''Projetos'', ''TotalEnergie'']"]
    monta_dda_blocked_at blocked_mkdir
  have h: "processar_tipo example_pandas ''at'' (INPUT_DIR @ [''ucat_pj.csv''])
        world_blocked_target
        = (None, world_blocked_target\<lparr>console := console world_blocked_target
             @ [Processando ''at'' (path_name (INPUT_DIR @ [''ucat_pj.csv''])),
                ERROR_ao_processar ''at'' (NotADirectoryError [''C:'', ''Projetos'', ''TotalEnergie'']),
                Traceback (NotADirectoryError [''C:'', ''Projetos'', ''TotalEnergie''])]\<rparr>)"
    by blast
  show ?thesis using a c(1) g h by simp
qed

text \<open>
  Claim C7. Every exception of the \<^verbatim>\<open>try\<close> block of one dataset is caught: the handler
  prints the error and the traceback and \<^verbatim>\<open>processar_tipo\<close> returns. After a check that
  passes, the run therefore calls \<^verbatim>\<open>processar_tipo\<close> for \<open>at\<close>, \<open>mt\<close> and \<open>bt\<close>, in this
  order, each in the world the one before has left. In particular, when the dictionary
  of \<open>mt\<close> cannot be made while those of \<open>at\<close> and \<open>bt\<close> can, the run ends normally with
  the dictionaries of \<open>at\<close> and \<open>bt\<close> written, nothing written for \<open>mt\<close>, and the error
  of \<open>mt\<close> and its traceback on the console between the lines of the two others.
\<close>

theorem builder_continues_after_failure:
  "(processar_try pd tipo path (print (Processando tipo (path_name path)) w) = (Some e, w1)
      \<longrightarrow> processar_tipo pd tipo path w
            = (None, print (Traceback e) (print (ERROR_ao_processar tipo e) w1)))
   \<and> fst (processar_tipo pd tipo path w) = None
   \<and> (builder_missing (files w) = [] \<longrightarrow>
        builder_main pd w =
          (None, print DDA_gerados
            (snd (processar_tipo pd ''bt'' (INPUT_DIR @ [''ucbt_pj.zip''])
              (snd (processar_tipo pd ''mt'' (INPUT_DIR @ [''ucmt_pj.csv''])
                (snd (processar_tipo pd ''at'' (INPUT_DIR @ [''ucat_pj.csv''])
                  (print Encontrados w)))))))))
   \<and> (builder_missing (files w) = [] \<and> can_create (files w) OUTPUT_DIR
        \<and> files w (dda_path ''at'') \<noteq> Some Dir \<and> files w (dda_path ''bt'') \<noteq> Some Dir
        \<and> monta_dda pd ''at'' (INPUT_DIR @ [''ucat_pj.csv'']) (files w) = Inr a
        \<and> monta_dda pd ''mt'' (INPUT_DIR @ [''ucmt_pj.csv'']) (files w) = Inl e'
        \<and> monta_dda pd ''bt'' (INPUT_DIR @ [''ucbt_pj.zip'']) (files w) = Inr b
      \<longrightarrow> (\<exists>w'. builder_main pd w = (None, w')
            \<and> files w' (dda_path ''at'') = Some (File (Delimited a))
            \<and> files w' (dda_path ''bt'') = Some (File (Delimited b))
            \<and> files w' (dda_path ''mt'') = files w (dda_path ''mt'')
            \<and> console w' = console w @ [Encontrados,
                 Processando ''at'' ''ucat_pj.csv'', Exportado (dda_path ''at''),
                 Processando ''mt'' ''ucmt_pj.csv'', ERROR_ao_processar ''mt'' e', Traceback e',
                 Processando ''bt'' ''ucbt_pj.zip'', Exportado (dda_path ''bt''),
                 DDA_gerados]))"
proof -
  have a: "processar_try pd tipo path (print (Processando tipo (path_name path)) w) = (Some e, w1)
      \<longrightarrow> processar_tipo pd tipo path w
            = (None, print (Traceback e) (print (ERROR_ao_processar tipo e) w1))"
    by (auto simp add: processar_tipo_def dest: processar_try_exn)
  have b: "fst (processar_tipo pd tipo path w) = None"
    by (rule processar_tipo_returns)
  have c: "builder_missing (files w) = [] \<longrightarrow>
        builder_main pd w =
          (None, print DDA_gerados
            (snd (processar_tipo pd ''bt'' (INPUT_DIR @ [''ucbt_pj.zip''])
              (snd (processar_tipo pd ''mt'' (INPUT_DIR @ [''ucmt_pj.csv''])
                (snd (processar_tipo pd ''at'' (INPUT_DIR @ [''ucat_pj.csv''])
                  (print Encontrados w))))))))"
    using builder_main_runs_all by blast
  have d: "builder_missing (files w) = [] \<and> can_create (files w) OUTPUT_DIR
        \<and> files w (dda_path ''at'') \<noteq> Some Dir \<and> files w (dda_path ''bt'') \<noteq> Some Dir
        \<and> monta_dda pd ''at'' (INPUT_DIR @ [''ucat_pj.csv'']) (files w) = Inr a
        \<and> monta_dda pd ''mt'' (INPUT_DIR @ [''ucmt_pj.csv'']) (files w) = Inl e'
        \<and> monta_dda pd ''bt'' (INPUT_DIR @ [''ucbt_pj.zip'']) (files w) = Inr b
      \<longrightarrow> (\<exists>w'. builder_main pd w = (None, w')
            \<and> files w' (dda_path ''at'') = Some (File (Delimited a))
            \<and> files w' (dda_path ''bt'') = Some (File (Delimited b))
            \<and> files w' (dda_path ''mt'') = files w (dda_path ''mt'')
            \<and> console w' = console w @ [Encontrados,
                 Processando ''at'' ''ucat_pj.csv'', Exportado (dda_path ''at''),
                 Processando ''mt'' ''ucmt_pj.csv'', ERROR_ao_processar ''mt'' e', Traceback e',
                 Processando ''bt'' ''ucbt_pj.zip'', Exportado (dda_path ''bt''),
                 DDA_gerados])"
    using builder_partial_success [of w pd a e' b] by blast
  from a b c d show ?thesis by blast
qed

theorem builder_continues_after_failure_witness:
  "processar_try example_pandas ''mt'' (INPUT_DIR @ [''ucmt_pj.csv''])
      (print (Processando ''mt'' (path_name (INPUT_DIR @ [''ucmt_pj.csv'']))) world_without_target)
     = (Some (ParserError ''Error tokenizing data''),
        print (Processando ''mt'' (path_name (INPUT_DIR @ [''ucmt_pj.csv'']))) world_without_target)
   \<and> fst (processar_tipo example_pandas ''mt'' (INPUT_DIR @ [''ucmt_pj.csv''])
            world_without_target) = None
   \<and> builder_missing (files world_without_target) = []
   \<and> (\<exists>w'. builder_main example_pandas world_without_target = (None, w')
        \<and> files w' (dda_path ''at'')
            = Some (File (Delimited [[''campo'', ''pandas_dtype'', ''tipo_aneel''],
                 [''COD_ID'', ''object'', ''TEXT''], [''DEM_01'', ''int64'', ''REAL''],
                 [''DATA_BASE'', ''object'', ''TEXT'']]))
        \<and> files w' (dda_path ''bt'')
            = Some (File (Delimited [[''campo'', ''pandas_dtype'', ''tipo_aneel''],
                 [''FIC_1'', ''int64'', ''INTEGER''], [''nome'', ''object'', ''TEXT'']]))
        \<and> files w' (dda_path ''mt'') = None
        \<and> Traceback (ParserError ''Error tokenizing data'') \<in> set (console w'))"
proof -
  let ?w = world_without_target
  have f: "files ?w = sources_only"
    by (simp add: world_without_target_def)
  have t: "processar_try example_pandas ''mt'' (INPUT_DIR @ [''ucmt_pj.csv''])
      (print (Processando ''mt'' (path_name (INPUT_DIR @ [''ucmt_pj.csv'']))) ?w)
     = (Some (ParserError ''Error tokenizing data''),
        print (Processando ''mt'' (path_name (INPUT_DIR @ [''ucmt_pj.csv'']))) ?w)"
    by (simp add: processar_try_def print_def f monta_dda_example_mt)
  have hyp: "builder_missing (files ?w) = [] \<and> can_create (files ?w) OUTPUT_DIR
        \<and> files ?w (dda_path ''at'') \<noteq> Some Dir \<and> files ?w (dda_path ''bt'') \<noteq> Some Dir
        \<and> monta_dda example_pandas ''at'' (INPUT_DIR @ [''ucat_pj.csv'']) (files ?w)
            = Inr [[''campo'', ''pandas_dtype'', ''tipo_aneel''],
                 [''COD_ID'', ''object'', ''TEXT''], [''DEM_01'', ''int64'', ''REAL''],
                 [''DATA_BASE'', ''object'', ''TEXT'']]
        \<and> monta_dda example_pandas ''mt'' (INPUT_DIR @ [''ucmt_pj.csv'']) (files ?w)
            = Inl (ParserError ''Error tokenizing data'')
        \<and> monta_dda example_pandas ''bt'' (INPUT_DIR @ [''ucbt_pj.zip'']) (files ?w)
            = Inr [[''campo'', ''pandas_dtype'', ''tipo_aneel''],
                 [''FIC_1'', ''int64'', ''INTEGER''], [''nome'', ''object'', ''TEXT'']]"
    by (simp add: f sources_only_checks monta_dda_example_at monta_dda_example_mt
        monta_dda_example_bt)
  note th = builder_continues_after_failure
    [of example_pandas "''mt''" "INPUT_DIR @ [''ucmt_pj.csv'']" ?w
      "ParserError ''Error tokenizing data''"
      "print (Processando ''mt'' (path_name (INPUT_DIR @ [''ucmt_pj.csv'']))) ?w"
      "[[''campo'', ''pandas_dtype'', ''tipo_aneel''],
                 [''COD_ID'', ''object'', ''TEXT''], [''DEM_01'', ''int64'', ''REAL''],
                 [''DATA_BASE'', ''object'', ''TEXT'']]"
      "ParserError ''Error tokenizing data''"
      "[[''campo'', ''pandas_dtype'', ''tipo_aneel''],
                 [''FIC_1'', ''int64'', ''INTEGER''], [''nome'', ''object'', ''TEXT'']]"]
  from th have r: "fst (processar_tipo example_pandas ''mt'' (INPUT_DIR @ [''ucmt_pj.csv'']) ?w) = None"
    by blast
  from th hyp obtain w' where w': "builder_main example_pandas ?w = (None, w')"
    "files w' (dda_path ''at'')
            = Some (File (Delimited [[''campo'', ''pandas_dtype'', ''tipo_aneel''],
                 [''COD_ID'', ''object'', ''TEXT''], [''DEM_01'', ''int64'', ''REAL''],
                 [''DATA_BASE'', ''object'', ''TEXT'']]))"
    "files w' (dda_path ''bt'')
            = Some (File (Delimited [[''campo'', ''pandas_dtype'', ''tipo_aneel''],
                 [''FIC_1'', ''int64'', ''INTEGER''], [''nome'', ''object'', ''TEXT'']]))"
    "files w' (dda_path ''mt'') = files ?w (dda_path ''mt'')"
    "console w' = console ?w @ [Encontrados,
                 Processando ''at'' ''ucat_pj.csv'', Exportado (dda_path ''at''),
                 Processando ''mt'' ''ucmt_pj.csv'',
                 ERROR_ao_processar ''mt'' (ParserError ''Error tokenizing data''),
                 Traceback (ParserError ''Error tokenizing data''),
                 Processando ''bt'' ''ucbt_pj.zip'', Exportado (dda_path ''bt''),
                 DDA_gerados]"
    by blast
  have m: "files w' (dda_path ''mt'') = None"
    by (simp add: w'(4) f sources_only_checks)
  have tb: "Traceback (ParserError ''Error tokenizing data'') \<in> set (console w')"
    by (simp add: w'(5))
  from hyp have ok: "builder_missing (files ?w) = []" by blast
  from t r ok w'(1,2,3) m tb show ?thesis by blast
qed


section \<open>Columns of a frame under the conversion loops\<close>

lemma index_from_Some:
  "index_from i c cols = Some j \<Longrightarrow> i \<le> j \<and> j - i < length cols \<and> cols ! (j - i) = c"
proof (induction cols arbitrary: i)
  case Nil
  then show ?case by simp
next
  case (Cons x xs)
  show ?case
  proof (cases "x = c")
    case True
    with Cons.prems show ?thesis by simp
  next
    case False
    with Cons.prems have "index_from (Suc i) c xs = Some j" by simp
    from Cons.IH [OF this] have "Suc i \<le> j" "j - Suc i < length xs" "xs ! (j - Suc i) = c"
      by simp_all
    moreover from \<open>Suc i \<le> j\<close> have "j - i = Suc (j - Suc i)" by simp
    ultimately show ?thesis by simp
  qed
qed

lemma index_from_None: "index_from i c cols = None \<longleftrightarrow> c \<notin> set cols"
  by (induction cols arbitrary: i) auto

lemma apply_column_frame:
  assumes "apply_column g c df = Inr df'"
  shows "columns df' = columns df" and "length (rows df') = length (rows df)"
    and "wf_frame df \<Longrightarrow> wf_frame df'"
  using assms
  by (auto simp: apply_column_def wf_frame_def list_all_iff split: option.splits)

lemma apply_column_get:
  assumes wf: "wf_frame df" and ap: "apply_column g c df = Inr df'"
    and get: "get_column df c' = Inr cells"
  shows "get_column df' c' = Inr (if c' = c then map g cells else cells)"
proof -
  from ap obtain i where i: "index_from 0 c (columns df) = Some i"
    and df': "df' = df\<lparr>rows := map (\<lambda>r. r[i := g (r ! i)]) (rows df)\<rparr>"
    by (auto simp: apply_column_def split: option.splits)
  from get obtain i' where i': "index_from 0 c' (columns df) = Some i'"
    and cells: "cells = map (\<lambda>r. r ! i') (rows df)"
    by (auto simp: get_column_def split: option.splits)
  from index_from_Some [OF i] have ci: "i < length (columns df)" "columns df ! i = c"
    by simp_all
  from index_from_Some [OF i'] have ci': "columns df ! i' = c'"
    by simp
  have rect: "\<And>r. r \<in> set (rows df) \<Longrightarrow> length r = length (columns df)"
    using wf by (simp add: wf_frame_def list_all_iff)
  have g': "get_column df' c' = Inr (map (\<lambda>r. (r[i := g (r ! i)]) ! i') (rows df))"
    by (simp add: get_column_def df' i' comp_def)
  show ?thesis
  proof (cases "c' = c")
    case True
    with i i' have "i' = i" by simp
    then have "map (\<lambda>r. (r[i := g (r ! i)]) ! i') (rows df) = map g cells"
      using rect ci(1) by (simp add: cells)
    with g' True show ?thesis by simp
  next
    case False
    with ci(2) ci' have "i \<noteq> i'" by auto
    then have "map (\<lambda>r. (r[i := g (r ! i)]) ! i') (rows df) = cells"
      by (simp add: cells)
    with g' False show ?thesis by simp
  qed
qed

text \<open>
  A loop that assigns to one column per item: the column of label \<open>c\<close> goes through the
  functions of the items that name \<open>c\<close>, in their order.
\<close>

lemma for_each_columns:
  assumes body: "\<And>k t df. body (k, t) df =
      (case name k of Some c \<Rightarrow> apply_column (g k t) c df | None \<Rightarrow> Inl KeyError)"
  shows "wf_frame df \<Longrightarrow> for_each body items df = Inr df' \<Longrightarrow> get_column df c = Inr cells \<Longrightarrow>
    wf_frame df' \<and> columns df' = columns df \<and> length (rows df') = length (rows df)
    \<and> get_column df' c
        = Inr (fold (\<lambda>(k, t) cs. if name k = Some c then map (g k t) cs else cs) items cells)"
proof (induction items arbitrary: df cells)
  case Nil
  then show ?case by simp
next
  case (Cons x items)
  obtain k t where x: "x = (k, t)" by (cases x)
  from Cons.prems(2) obtain df1 where s1: "body (k, t) df = Inr df1"
    and s2: "for_each body items df1 = Inr df'"
    by (auto simp: x split: sum.splits)
  from s1 obtain c0 where n: "name k = Some c0" and ap: "apply_column (g k t) c0 df = Inr df1"
    by (auto simp: body split: option.splits)
  note fr = apply_column_frame [OF ap]
  have g1: "get_column df1 c = Inr (if c = c0 then map (g k t) cells else cells)"
    by (rule apply_column_get [OF Cons.prems(1) ap Cons.prems(3)])
  from Cons.IH [OF fr(3) [OF Cons.prems(1)] s2 g1] fr(1,2) n
  show ?case by (auto simp: x)
qed

lemma for_each_columns_total:
  assumes body: "\<And>k t df. body (k, t) df =
      (case name k of Some c \<Rightarrow> apply_column (g k t) c df | None \<Rightarrow> Inl KeyError)"
  shows "\<forall>k \<in> fst ` set items. \<exists>c \<in> set (columns df). name k = Some c \<Longrightarrow>
    \<exists>df'. for_each body items df = Inr df'"
proof (induction items arbitrary: df)
  case Nil
  then show ?case by simp
next
  case (Cons x items)
  obtain k t where x: "x = (k, t)" by (cases x)
  from Cons.prems x obtain c where c: "c \<in> set (columns df)" "name k = Some c" by auto
  then obtain i where "index_from 0 c (columns df) = Some i"
    using index_from_None [of 0 c "columns df"] by (cases "index_from 0 c (columns df)") auto
  then obtain df1 where ap: "apply_column (g k t) c df = Inr df1"
    by (simp add: apply_column_def)
  have "columns df1 = columns df" by (rule apply_column_frame(1) [OF ap])
  with Cons.prems have "\<forall>k \<in> fst ` set items. \<exists>c \<in> set (columns df1). name k = Some c"
    by simp
  from Cons.IH [OF this] obtain df' where "for_each body items df1 = Inr df'" ..
  then show ?case by (simp add: x body c(2) ap)
qed

lemma fold_no_item:
  "\<forall>k \<in> fst ` set items. name k \<noteq> Some c \<Longrightarrow>
   fold (\<lambda>(k, t) cs. if name k = Some c then map (g k t) cs else cs) items cells = cells"
  by (induction items arbitrary: cells) auto

lemma fold_one_item:
  "distinct (map fst items) \<Longrightarrow> (k, t) \<in> set items \<Longrightarrow> name k = Some c \<Longrightarrow>
   \<forall>k' \<in> fst ` set items. name k' = Some c \<longrightarrow> k' = k \<Longrightarrow>
   fold (\<lambda>(k, t) cs. if name k = Some c then map (g k t) cs else cs) items cells
     = map (g k t) cells"
proof (induction items arbitrary: cells)
  case Nil
  then show ?case by simp
next
  case (Cons x items)
  obtain k0 t0 where x: "x = (k0, t0)" by (cases x)
  from Cons.prems(1) have d: "distinct (map fst items)" and k0: "k0 \<notin> fst ` set items"
    by (simp_all add: x)
  show ?case
  proof (cases "k0 = k")
    case True
    have "(k, t) \<notin> set items"
    proof
      assume "(k, t) \<in> set items"
      then have "k \<in> fst ` set items" by force
      with k0 True show False by simp
    qed
    with Cons.prems(2) have t0: "t0 = t" by (simp add: x)
    have none: "\<forall>k' \<in> fst ` set items. name k' \<noteq> Some c"
    proof
      fix k' assume k': "k' \<in> fst ` set items"
      show "name k' \<noteq> Some c"
      proof
        assume nk: "name k' = Some c"
        from k' have "k' \<in> fst ` set (x # items)" by simp
        with Cons.prems(4) nk have "k' = k" by blast
        with k' k0 True show False by simp
      qed
    qed
    have "fold (\<lambda>(k, t) cs. if name k = Some c then map (g k t) cs else cs) (x # items) cells
        = fold (\<lambda>(k, t) cs. if name k = Some c then map (g k t) cs else cs) items
            (map (g k t) cells)"
      by (simp add: x True t0 Cons.prems(3))
    also have "\<dots> = map (g k t) cells"
      by (rule fold_no_item [OF none])
    finally show ?thesis .
  next
    case False
    have n0: "name k0 \<noteq> Some c"
    proof
      assume nk: "name k0 = Some c"
      have "k0 \<in> fst ` set (x # items)" by (simp add: x)
      with Cons.prems(4) nk have "k0 = k" by blast
      with False show False by simp
    qed
    from False Cons.prems(2) have mem: "(k, t) \<in> set items" by (simp add: x)
    from Cons.prems(4) have all: "\<forall>k' \<in> fst ` set items. name k' = Some c \<longrightarrow> k' = k"
      by auto
    have "fold (\<lambda>(k, t) cs. if name k = Some c then map (g k t) cs else cs) (x # items) cells
        = fold (\<lambda>(k, t) cs. if name k = Some c then map (g k t) cs else cs) items cells"
      by (simp add: x n0)
    also have "\<dots> = map (g k t) cells"
      by (rule Cons.IH [OF d mem Cons.prems(3) all])
    finally show ?thesis .
  qed
qed
end
